theory Spec2Isabelle
  imports Complex_Main "HOL-Library.Word"
begin

unbundle bit_operations_syntax

section \<open>Python floats\<close>

text \<open>
  The scenario driver \<^verbatim>\<open>Car_to_Bicyclist_Succed.py\<close> computes with Python floats
  (IEEE-754 binary64). A float that is stored or put on the wire is modelled by its bit
  pattern, a 64-bit word; the number it denotes is an \<open>fval\<close>: a real, one of the two
  infinities, or not-a-number. Comparisons and arithmetic are defined on \<open>fval\<close> with
  Python's rules for the special values; on finite operands they are the exact real
  operations, so the rounding of each operation to the nearest double (and the sign of
  zero) is abstracted away.
\<close>

type_synonym byte = "8 word"
type_synonym float64 = "64 word"

datatype fval = Fin real | PInf | NInf | NaN

datatype pyexn =
    SocketTimeout | OSError | StructError | IndexError
  | ValueError | OverflowError | ZeroDivisionError

text \<open>Python's \<^verbatim>\<open><\<close> and \<^verbatim>\<open><=\<close> on floats: false as soon as one side is NaN.\<close>

fun flt :: "fval \<Rightarrow> fval \<Rightarrow> bool" where
  "flt (Fin a) (Fin b) = (a < b)"
| "flt (Fin a) PInf = True"
| "flt NInf (Fin b) = True"
| "flt NInf PInf = True"
| "flt _ _ = False"

fun fle :: "fval \<Rightarrow> fval \<Rightarrow> bool" where
  "fle (Fin a) (Fin b) = (a \<le> b)"
| "fle (Fin a) PInf = True"
| "fle NInf (Fin b) = True"
| "fle NInf PInf = True"
| "fle NInf NInf = True"
| "fle PInf PInf = True"
| "fle _ _ = False"

text \<open>\<^verbatim>\<open>a > b\<close> is \<^verbatim>\<open>b < a\<close>.\<close>

definition fgt :: "fval \<Rightarrow> fval \<Rightarrow> bool" where
  "fgt a b = flt b a"

fun fadd :: "fval \<Rightarrow> fval \<Rightarrow> fval" where
  "fadd (Fin a) (Fin b) = Fin (a + b)"
| "fadd NaN _ = NaN"
| "fadd _ NaN = NaN"
| "fadd PInf NInf = NaN"
| "fadd NInf PInf = NaN"
| "fadd PInf _ = PInf"
| "fadd NInf _ = NInf"
| "fadd (Fin a) PInf = PInf"
| "fadd (Fin a) NInf = NInf"

fun fneg :: "fval \<Rightarrow> fval" where
  "fneg (Fin a) = Fin (- a)"
| "fneg PInf = NInf"
| "fneg NInf = PInf"
| "fneg NaN = NaN"

definition fsub :: "fval \<Rightarrow> fval \<Rightarrow> fval" where
  "fsub a b = fadd a (fneg b)"

text \<open>
  Python's \<^verbatim>\<open>a / b\<close> on floats raises ZeroDivisionError when \<open>b\<close> is zero; otherwise it
  is the IEEE quotient.
\<close>

fun fdiv :: "fval \<Rightarrow> fval \<Rightarrow> pyexn + fval" where
  "fdiv NaN (Fin b) = (if b = 0 then Inl ZeroDivisionError else Inr NaN)"
| "fdiv PInf (Fin b) =
     (if b = 0 then Inl ZeroDivisionError else Inr (if 0 < b then PInf else NInf))"
| "fdiv NInf (Fin b) =
     (if b = 0 then Inl ZeroDivisionError else Inr (if 0 < b then NInf else PInf))"
| "fdiv (Fin a) (Fin b) = (if b = 0 then Inl ZeroDivisionError else Inr (Fin (a / b)))"
| "fdiv _ NaN = Inr NaN"
| "fdiv NaN _ = Inr NaN"
| "fdiv (Fin a) _ = Inr (Fin 0)"
| "fdiv _ _ = Inr NaN"

text \<open>
  The builtin \<^verbatim>\<open>max(a, b)\<close> keeps \<open>a\<close> unless \<^verbatim>\<open>b > a\<close>, so a NaN second
  argument is dropped.
\<close>

definition py_max :: "fval \<Rightarrow> fval \<Rightarrow> fval" where
  "py_max a b = (if fgt b a then b else a)"

text \<open>
  The builtin \<^verbatim>\<open>round(x)\<close> on a float: the nearest integer, a tie going to the even
  neighbour; OverflowError on an infinity and ValueError on NaN.
\<close>

definition round_half_even :: "real \<Rightarrow> int" where
  "round_half_even x =
     (let f = \<lfloor>x\<rfloor>; d = x - of_int f
      in if d < 1 / 2 then f else if 1 / 2 < d then f + 1
         else if even f then f else f + 1)"

fun py_round :: "fval \<Rightarrow> pyexn + int" where
  "py_round (Fin x) = Inr (round_half_even x)"
| "py_round PInf = Inl OverflowError"
| "py_round NInf = Inl OverflowError"
| "py_round NaN = Inl ValueError"

text \<open>The number a binary64 bit pattern denotes: sign, 11 exponent bits, 52 fraction bits.\<close>

definition valof :: "float64 \<Rightarrow> fval" where
  "valof w =
     (let e = unat (take_bit 11 (drop_bit 52 w)); m = unat (take_bit 52 w)
      in if e = 2047 then (if m = 0 then (if bit w 63 then NInf else PInf) else NaN)
         else
           let mag = (if e = 0 then real m / 2 ^ 1074
                      else if e < 1075 then real (2 ^ 52 + m) / 2 ^ (1075 - e)
                      else real (2 ^ 52 + m) * 2 ^ (e - 1075))
           in Fin (if bit w 63 then - mag else mag))"

section \<open>Time to collision\<close>

text \<open>
  \<^verbatim>\<open>
  def calculate_ttc(distance, relative_velocity):
      if relative_velocity <= 0:
          return float('inf')
      return distance / relative_velocity
  \<close>
\<close>

definition calculate_ttc :: "fval \<Rightarrow> fval \<Rightarrow> pyexn + fval" where
  "calculate_ttc distance relative_velocity =
     (if fle relative_velocity (Fin 0) then Inr PInf
      else fdiv distance relative_velocity)"

section \<open>Decisions and actuation\<close>

text \<open>
  The decision dictionary \<^verbatim>\<open>sim_data\<close> always has the same four keys, so it is a record.
\<close>

record sim_data =
  egoCarStop :: bool
  FCW_Activate :: bool
  Deceleration :: fval
  AEB_Status :: bool

text \<open>
  \<^verbatim>\<open>carla.VehicleControl\<close> belongs to the simulator's client library, not to this
  repository. Of its fields the driver sets throttle, steer and brake; the constructor
  called without arguments leaves each of them at 0.0.
\<close>

record VehicleControl =
  throttle :: fval
  steer :: fval
  brake :: fval

definition VehicleControl_init :: VehicleControl where
  "VehicleControl_init = \<lparr>throttle = Fin 0, steer = Fin 0, brake = Fin 0\<rparr>"

text \<open>
  \<^verbatim>\<open>
  def control_ego(ego, sim_time, sim_data, collision):
      control = carla.VehicleControl()
      if sim_data['AEB_Status'] or sim_data['egoCarStop'] or collision:
          control.throttle = 0.0
          control.brake = 1.0
      else:
          if sim_time > 2.5:
              control.throttle = max(0.3, 0.5 - sim_data['Deceleration'])
              control.brake = sim_data['Deceleration']
              control.steer = 0.0
          else:
              control.throttle = 0.0
              control.brake = 1.0
      return control
  \<close>
  The actor handle \<open>ego\<close> is not used by the function and is left out.
\<close>

definition control_ego :: "fval \<Rightarrow> sim_data \<Rightarrow> bool \<Rightarrow> VehicleControl" where
  "control_ego sim_time sd collision =
     (let control = VehicleControl_init
      in if AEB_Status sd \<or> egoCarStop sd \<or> collision
         then control\<lparr>throttle := Fin 0, brake := Fin 1\<rparr>
         else if fgt sim_time (Fin (5 / 2))
           then control\<lparr>throttle := py_max (Fin (3 / 10)) (fsub (Fin (1 / 2)) (Deceleration sd)),
                        brake := Deceleration sd,
                        steer := Fin 0\<rparr>
           else control\<lparr>throttle := Fin 0, brake := Fin 1\<rparr>)"

section \<open>The wire format\<close>

text \<open>
  \<^verbatim>\<open>struct.pack('d', x)\<close> writes the eight bytes of the double \<open>x\<close> in the byte order of
  the machine, taken here to be little-endian: the least significant byte first.
  \<^verbatim>\<open>struct.unpack('d', data)\<close> reads them back and raises \<^verbatim>\<open>struct.error\<close> unless
  \<open>data\<close> has exactly eight bytes.
\<close>

definition pack_d :: "float64 \<Rightarrow> byte list" where
  "pack_d w = map (\<lambda>i. ucast (drop_bit (8 * i) w)) [0..<8]"

fun le_word :: "byte list \<Rightarrow> float64" where
  "le_word [] = 0"
| "le_word (b # bs) = ucast b OR push_bit 8 (le_word bs)"

definition unpack_bits :: "byte list \<Rightarrow> pyexn + float64" where
  "unpack_bits data = (if length data = 8 then Inr (le_word data) else Inl StructError)"

definition unpack_d :: "byte list \<Rightarrow> pyexn + fval" where
  "unpack_d data = (case unpack_bits data of Inl e \<Rightarrow> Inl e | Inr w \<Rightarrow> Inr (valof w))"

section \<open>The connection\<close>

text \<open>
  The socket is the environment of the program. A connection carries the outcomes of
  the \<^verbatim>\<open>recv(8)\<close> calls to come, in order (the bytes one call returns, a timeout, or
  another I/O error; when none is left no data arrives any more and the call times out),
  the outcomes of the \<^verbatim>\<open>sendall\<close> calls to come (\<open>True\<close>: all bytes written; none
  left: written), and the bytes written so far.
\<close>

datatype recv_result = Data "byte list" | SockTimeout | SockError

record conn =
  rx :: "recv_result list"
  tx :: "bool list"
  sent :: "byte list"

definition recv :: "conn \<Rightarrow> (pyexn + byte list) \<times> conn" where
  "recv c =
     (case rx c of
        [] \<Rightarrow> (Inl SocketTimeout, c)
      | Data bs # r \<Rightarrow> (Inr bs, c\<lparr>rx := r\<rparr>)
      | SockTimeout # r \<Rightarrow> (Inl SocketTimeout, c\<lparr>rx := r\<rparr>)
      | SockError # r \<Rightarrow> (Inl OSError, c\<lparr>rx := r\<rparr>))"

definition sendall :: "conn \<Rightarrow> byte list \<Rightarrow> (pyexn + unit) \<times> conn" where
  "sendall c bs =
     (case tx c of
        [] \<Rightarrow> (Inr (), c\<lparr>sent := sent c @ bs\<rparr>)
      | ok # t \<Rightarrow>
          if ok then (Inr (), c\<lparr>tx := t, sent := sent c @ bs\<rparr>)
          else (Inl OSError, c\<lparr>tx := t\<rparr>))"

section \<open>Sending the telemetry\<close>

text \<open>
  \<^verbatim>\<open>
  def send_data(conn, data):
      try:
          values = [data['MIO_Distance'], data['MIO_Velocity'], data['Ego_Velocity']]
          for val in values:
              conn.sendall(struct.pack('d', float(val)))
          print(...)
      except Exception as e:
          print(...)
          raise
  \<close>
  The three values are floats already, so \<^verbatim>\<open>float(val)\<close> returns them unchanged. The
  handler logs and re-raises: the exception reaches the caller as it is.
\<close>

record telemetry =
  MIO_Distance :: float64
  MIO_Velocity :: float64
  Ego_Velocity :: float64

fun send_values :: "conn \<Rightarrow> float64 list \<Rightarrow> (pyexn + unit) \<times> conn" where
  "send_values c [] = (Inr (), c)"
| "send_values c (val # vals) =
     (case sendall c (pack_d val) of
        (Inl e, c') \<Rightarrow> (Inl e, c')
      | (Inr u, c') \<Rightarrow> send_values c' vals)"

definition send_data :: "conn \<Rightarrow> telemetry \<Rightarrow> (pyexn + unit) \<times> conn" where
  "send_data c data =
     (let values = [MIO_Distance data, MIO_Velocity data, Ego_Velocity data]
      in case send_values c values of
           (Inl e, c') \<Rightarrow> (Inl e, c')
         | (Inr u, c') \<Rightarrow> (Inr (), c'))"

text \<open>
  Modelled from the spec: the symmetric test codec of the round-trip property is not in
  the repository. It is taken to read a 24-byte message as three consecutive 8-byte
  fields, each with \<^verbatim>\<open>struct.unpack('d', ...)\<close>, the call \<^verbatim>\<open>receive_data\<close> uses for the
  inbound fields.
\<close>

definition decode_outbound :: "byte list \<Rightarrow> pyexn + telemetry" where
  "decode_outbound msg =
     (if length msg \<noteq> 24 then Inl StructError
      else case unpack_bits (take 8 msg) of Inl e \<Rightarrow> Inl e | Inr d \<Rightarrow>
           case unpack_bits (take 8 (drop 8 msg)) of Inl e \<Rightarrow> Inl e | Inr v \<Rightarrow>
           case unpack_bits (drop 16 msg) of Inl e \<Rightarrow> Inl e | Inr g \<Rightarrow>
             Inr \<lparr>MIO_Distance = d, MIO_Velocity = v, Ego_Velocity = g\<rparr>)"

section \<open>Receiving the decision\<close>

text \<open>
  \<^verbatim>\<open>
  def receive_data(conn):
      try:
          values = []
          for _ in range(4):
              try:
                  data = conn.recv(8)
                  if len(data) < 8:
                      print("Donnees incompletes recues, reessai...")
                      time.sleep(0.01)
                      continue
                  values.append(struct.unpack('d', data)[0])
              except socket.timeout:
                  print("Timeout en attente de donnees")
                  return {'egoCarStop': False, 'FCW_Activate': False,
                          'Deceleration': 0.0, 'AEB_Status': False}
          result = {
              'egoCarStop': bool(round(values[0])),
              'FCW_Activate': bool(round(values[1])),
              'Deceleration': float(values[2]),
              'AEB_Status': bool(round(values[3]))
          }
          print(...)
          return result
      except Exception as e:
          print(...)
          return {'egoCarStop': False, 'FCW_Activate': False,
                  'Deceleration': 0.0, 'AEB_Status': False}
  \<close>
  The loop either runs its four iterations, or returns from the function on a timeout,
  or raises. Logging and the 10 ms sleep have no effect on the result.
\<close>

definition safe_default :: sim_data where
  "safe_default =
     \<lparr>egoCarStop = False, FCW_Activate = False, Deceleration = Fin 0, AEB_Status = False\<rparr>"

datatype loop_exit = Completed "fval list" | Returned sim_data | Raised pyexn

fun recv_loop :: "nat \<Rightarrow> fval list \<Rightarrow> conn \<Rightarrow> loop_exit \<times> conn" where
  "recv_loop 0 values c = (Completed values, c)"
| "recv_loop (Suc n) values c =
     (case recv c of
        (Inl e, c') \<Rightarrow>
          (case e of SocketTimeout \<Rightarrow> (Returned safe_default, c') | _ \<Rightarrow> (Raised e, c'))
      | (Inr data, c') \<Rightarrow>
          if length data < 8 then recv_loop n values c'
          else (case unpack_d data of
                  Inl e \<Rightarrow> (Raised e, c')
                | Inr v \<Rightarrow> recv_loop n (values @ [v]) c'))"

text \<open>\<^verbatim>\<open>values[i]\<close> raises IndexError when the list is too short.\<close>

definition item :: "'a list \<Rightarrow> nat \<Rightarrow> pyexn + 'a" where
  "item xs i = (if i < length xs then Inr (xs ! i) else Inl IndexError)"

text \<open>\<^verbatim>\<open>bool(round(values[i]))\<close>: true when the rounded value is not zero.\<close>

definition bool_round_item :: "fval list \<Rightarrow> nat \<Rightarrow> pyexn + bool" where
  "bool_round_item values i =
     (case item values i of
        Inl e \<Rightarrow> Inl e
      | Inr v \<Rightarrow> (case py_round v of Inl e \<Rightarrow> Inl e | Inr k \<Rightarrow> Inr (k \<noteq> 0)))"

definition decode_values :: "fval list \<Rightarrow> pyexn + sim_data" where
  "decode_values values =
     (case bool_round_item values 0 of Inl e \<Rightarrow> Inl e | Inr stop \<Rightarrow>
      case bool_round_item values 1 of Inl e \<Rightarrow> Inl e | Inr fcw \<Rightarrow>
      case item values 2 of Inl e \<Rightarrow> Inl e | Inr dec \<Rightarrow>
      case bool_round_item values 3 of Inl e \<Rightarrow> Inl e | Inr aeb \<Rightarrow>
        Inr \<lparr>egoCarStop = stop, FCW_Activate = fcw, Deceleration = dec, AEB_Status = aeb\<rparr>)"

text \<open>The body of the outer \<^verbatim>\<open>try\<close>, with what it raises as a value.\<close>

definition receive_data_try :: "conn \<Rightarrow> (pyexn + sim_data) \<times> conn" where
  "receive_data_try c =
     (case recv_loop 4 [] c of
        (Returned d, c') \<Rightarrow> (Inr d, c')
      | (Raised e, c') \<Rightarrow> (Inl e, c')
      | (Completed values, c') \<Rightarrow> (decode_values values, c'))"

text \<open>
  \<^verbatim>\<open>except Exception\<close> catches every exception of the body (each \<open>pyexn\<close> is a subclass
  of \<^verbatim>\<open>Exception\<close>) and returns the default decision.
\<close>

definition receive_data :: "conn \<Rightarrow> (pyexn + sim_data) \<times> conn" where
  "receive_data c =
     (case receive_data_try c of
        (Inl e, c') \<Rightarrow> (Inr safe_default, c')
      | (Inr result, c') \<Rightarrow> (Inr result, c'))"

section \<open>The control loop\<close>

text \<open>
  One iteration of the \<^verbatim>\<open>while True\<close> loop of \<^verbatim>\<open>main\<close>, from \<^verbatim>\<open>world.tick()\<close> to the
  collision latch. The simulator is outside the program: what it reports at a tick (the
  distance between the two actors and their speeds) is the input of the iteration. The
  cyclist's control, the plot, the HUD and the camera do not feed back into the state
  and are left out.
  \<^verbatim>\<open>
  sim_time += 0.05
  distance = ego.get_location().distance(cyclist.get_location())
  ego_speed = get_speed(ego)
  cyclist_speed = get_speed(cyclist)
  relative_velocity = ego_speed - cyclist_speed
  ttc = calculate_ttc(distance, relative_velocity)
  if conn:
      try:
          send_data(conn, {'MIO_Distance': distance, 'MIO_Velocity': cyclist_speed,
                           'Ego_Velocity': ego_speed})
          sim_data = receive_data(conn)
      except Exception as e:
          print(...)
  ctrl = control_ego(ego, sim_time, sim_data, collision)
  ego.apply_control(ctrl)
  if distance < 2.5 and not collision:
      collision = True
  \<close>
\<close>

record world_obs =
  distance :: float64
  ego_speed :: float64
  cyclist_speed :: float64

text \<open>
  The variables of \<^verbatim>\<open>main\<close> that live across iterations: \<^verbatim>\<open>sim_time\<close>, \<^verbatim>\<open>collision\<close>,
  \<^verbatim>\<open>sim_data\<close> (the field \<open>decision\<close>) and \<^verbatim>\<open>conn\<close> (the field \<open>link\<close>).
\<close>

record loop_state =
  sim_time :: fval
  collision :: bool
  decision :: sim_data
  link :: "conn option"

text \<open>The state \<^verbatim>\<open>main\<close> enters the loop with; \<open>None\<close> when no peer connected.\<close>

definition init_state :: "conn option \<Rightarrow> loop_state" where
  "init_state c = \<lparr>sim_time = Fin 0, collision = False, decision = safe_default, link = c\<rparr>"

text \<open>The exchange with the controller: the new decision and the connection after it.\<close>

definition exchange :: "sim_data \<Rightarrow> conn option \<Rightarrow> telemetry \<Rightarrow> sim_data \<times> conn option" where
  "exchange sd l data =
     (case l of
        None \<Rightarrow> (sd, None)
      | Some c \<Rightarrow>
          (case send_data c data of
             (Inl e, c') \<Rightarrow> (sd, Some c')
           | (Inr u, c') \<Rightarrow>
               (case receive_data c' of
                  (Inl e, c'') \<Rightarrow> (sd, Some c'')
                | (Inr result, c'') \<Rightarrow> (result, Some c''))))"

definition tick :: "loop_state \<Rightarrow> world_obs \<Rightarrow> pyexn + (loop_state \<times> VehicleControl)" where
  "tick st ob =
     (let t = fadd (sim_time st) (Fin (5 / 100));
          relative_velocity = fsub (valof (ego_speed ob)) (valof (cyclist_speed ob))
      in case calculate_ttc (valof (distance ob)) relative_velocity of
           Inl e \<Rightarrow> Inl e
         | Inr ttc \<Rightarrow>
             let (sd, l) = exchange (decision st) (link st)
                   \<lparr>MIO_Distance = distance ob, MIO_Velocity = cyclist_speed ob,
                    Ego_Velocity = ego_speed ob\<rparr>;
                 ctrl = control_ego t sd (collision st);
                 coll = (if flt (valof (distance ob)) (Fin (5 / 2)) \<and> \<not> collision st
                         then True else collision st)
             in Inr (\<lparr>sim_time = t, collision = coll, decision = sd, link = l\<rparr>, ctrl))"

text \<open>
  The loop over the ticks of a run: one observation per tick, until the quit event ends
  the run. It returns the final state and the control applied at each tick.
\<close>

fun main_loop :: "loop_state \<Rightarrow> world_obs list \<Rightarrow> pyexn + (loop_state \<times> VehicleControl list)" where
  "main_loop st [] = Inr (st, [])"
| "main_loop st (ob # obs) =
     (case tick st ob of
        Inl e \<Rightarrow> Inl e
      | Inr (st', ctrl) \<Rightarrow>
          (case main_loop st' obs of
             Inl e \<Rightarrow> Inl e
           | Inr (st'', ctrls) \<Rightarrow> Inr (st'', ctrl # ctrls)))"

section \<open>Notions used in the statements\<close>

text \<open>The next \<open>n\<close> receive outcomes are all full 8-byte reads.\<close>

fun full_reads :: "nat \<Rightarrow> recv_result list \<Rightarrow> bool" where
  "full_reads 0 r = True"
| "full_reads (Suc n) (Data bs # r) = (length bs = 8 \<and> full_reads n r)"
| "full_reads (Suc n) r = False"

definition full_brake :: VehicleControl where
  "full_brake = \<lparr>throttle = Fin 0, steer = Fin 0, brake = Fin 1\<rparr>"

definition in_range :: "real \<Rightarrow> real \<Rightarrow> fval \<Rightarrow> bool" where
  "in_range lo hi v = (fle (Fin lo) v \<and> fle v (Fin hi))"

text \<open>The next \<open>n\<close> \<^verbatim>\<open>sendall\<close> calls succeed.\<close>

fun sends_ok :: "nat \<Rightarrow> bool list \<Rightarrow> bool" where
  "sends_ok 0 t = True"
| "sends_ok (Suc n) [] = True"
| "sends_ok (Suc n) (ok # t) = (ok \<and> sends_ok n t)"

text \<open>
  The bit patterns of the doubles that the literals 1.0, 0.0, 0.3, 0.6 and 0.4 denote
  (the nearest double to each; \<open>doubles_of_literals\<close> below gives their values).
\<close>

definition double_1_0 :: float64 where
  "double_1_0 = 0x3FF0000000000000"

definition double_0_0 :: float64 where
  "double_0_0 = 0"

definition double_0_3 :: float64 where
  "double_0_3 = 0x3FD3333333333333"

definition double_0_6 :: float64 where
  "double_0_6 = 0x3FE3333333333333"

definition double_0_4 :: float64 where
  "double_0_4 = 0x3FD999999999999A"

text \<open>The doubles 10.0 and 2.0, used as distances.\<close>

definition double_10_0 :: float64 where
  "double_10_0 = 0x4024000000000000"

definition double_2_0 :: float64 where
  "double_2_0 = 0x4000000000000000"

text \<open>
  A byte stream as it reaches the program: each \<^verbatim>\<open>recv(8)\<close> returns the next bytes of
  the stream, as many as have arrived (here: as the list of sizes says).
\<close>

fun split_stream :: "nat list \<Rightarrow> byte list \<Rightarrow> recv_result list" where
  "split_stream [] bs = []"
| "split_stream (n # ns) bs = Data (take n bs) # split_stream ns (drop n bs)"

text \<open>The 32-byte inbound message with the fields 1.0, 1.0, 0.0, 1.0.\<close>

definition message_1101 :: "byte list" where
  "message_1101 = pack_d double_1_0 @ pack_d double_1_0 @ pack_d double_0_0 @ pack_d double_1_0"

text \<open>
  The receive loop of \<open>receive_data\<close> meets a timeout within its next \<open>n\<close> reads:
  before any I/O error, and with no read of more than 8 bytes before it.
\<close>

fun times_out :: "nat \<Rightarrow> recv_result list \<Rightarrow> bool" where
  "times_out 0 r = False"
| "times_out (Suc n) [] = True"
| "times_out (Suc n) (SockTimeout # r) = True"
| "times_out (Suc n) (SockError # r) = False"
| "times_out (Suc n) (Data bs # r) = (length bs \<le> 8 \<and> times_out n r)"

text \<open>A float that is neither an infinity nor NaN.\<close>

fun is_finite :: "fval \<Rightarrow> bool" where
  "is_finite (Fin x) = True"
| "is_finite v = False"

text \<open>The double plus infinity.\<close>

definition double_inf :: float64 where
  "double_inf = 0x7FF0000000000000"

section \<open>Actuation: the safety override and the engagement threshold\<close>

lemma control_ego_override:
  "AEB_Status sd \<or> egoCarStop sd \<or> coll \<Longrightarrow>
   control_ego t sd coll = \<lparr>throttle = Fin 0, steer = Fin 0, brake = Fin 1\<rparr>"
  by (simp add: control_ego_def VehicleControl_init_def Let_def)

lemma control_ego_hold:
  "\<not> fgt t (Fin (5 / 2)) \<Longrightarrow>
   control_ego t sd coll = \<lparr>throttle = Fin 0, steer = Fin 0, brake = Fin 1\<rparr>"
  by (simp add: control_ego_def VehicleControl_init_def Let_def)

lemma control_ego_drive:
  "\<not> AEB_Status sd \<Longrightarrow> \<not> egoCarStop sd \<Longrightarrow> \<not> coll \<Longrightarrow> fgt t (Fin (5 / 2)) \<Longrightarrow>
   control_ego t sd coll =
     \<lparr>throttle = py_max (Fin (3 / 10)) (fsub (Fin (1 / 2)) (Deceleration sd)),
      steer = Fin 0, brake = Deceleration sd\<rparr>"
  by (simp add: control_ego_def VehicleControl_init_def Let_def)

text \<open>
  Claim C1. Whenever the decision has \<open>AEB_Status\<close> or \<open>egoCarStop\<close> set, or the
  collision flag is set, \<open>control_ego\<close> returns throttle 0, brake 1 and steer 0, whatever
  the deceleration and the elapsed time are. The steer is the 0.0 the constructor of the
  control leaves: this branch does not assign it.
\<close>

theorem control_ego_safety_override:
  "AEB_Status sd \<or> egoCarStop sd \<or> coll \<Longrightarrow>
   control_ego t sd coll = \<lparr>throttle = Fin 0, steer = Fin 0, brake = Fin 1\<rparr>"
  by (auto simp add: control_ego_def VehicleControl_init_def)

theorem control_ego_safety_override_witness:
  "(AEB_Status \<lparr>egoCarStop = False, FCW_Activate = False, Deceleration = Fin 7, AEB_Status = True\<rparr>
      \<or> egoCarStop \<lparr>egoCarStop = False, FCW_Activate = False, Deceleration = Fin 7, AEB_Status = True\<rparr>
      \<or> False)
   \<and> control_ego (Fin 100)
         \<lparr>egoCarStop = False, FCW_Activate = False, Deceleration = Fin 7, AEB_Status = True\<rparr> False
       = \<lparr>throttle = Fin 0, steer = Fin 0, brake = Fin 1\<rparr>"
  using control_ego_safety_override
    [of "\<lparr>egoCarStop = False, FCW_Activate = False, Deceleration = Fin 7, AEB_Status = True\<rparr>"
        False "Fin 100"]
  by simp

text \<open>
  Claim C6. With no override (\<open>AEB_Status\<close>, \<open>egoCarStop\<close> and the collision flag all
  false): when the elapsed time is greater than 2.5 the throttle is
  \<open>max(0.3, 0.5 - deceleration)\<close>, the brake is the deceleration and the steer is 0;
  otherwise the command is throttle 0, brake 1, so the ego is not throttled before the
  threshold. The last conjunct reads the throttle for a finite deceleration \<open>x\<close> as the
  real maximum of 0.3 and \<open>0.5 - x\<close>.
\<close>

theorem control_ego_no_override:
  assumes "\<not> AEB_Status sd" and "\<not> egoCarStop sd" and "\<not> coll"
  shows "(fgt t (Fin (5 / 2)) \<longrightarrow>
            control_ego t sd coll =
              \<lparr>throttle = py_max (Fin (3 / 10)) (fsub (Fin (1 / 2)) (Deceleration sd)),
               steer = Fin 0, brake = Deceleration sd\<rparr>)
       \<and> (\<not> fgt t (Fin (5 / 2)) \<longrightarrow>
            control_ego t sd coll = \<lparr>throttle = Fin 0, steer = Fin 0, brake = Fin 1\<rparr>)
       \<and> (\<forall>x. py_max (Fin (3 / 10)) (fsub (Fin (1 / 2)) (Fin x)) = Fin (max (3 / 10) (1 / 2 - x)))"
  using assms by (auto simp add: control_ego_def VehicleControl_init_def py_max_def fsub_def fgt_def)

theorem control_ego_no_override_witness:
  "control_ego (Fin 3)
     \<lparr>egoCarStop = False, FCW_Activate = True, Deceleration = Fin (1 / 10), AEB_Status = False\<rparr> False
     = \<lparr>throttle = Fin (2 / 5), steer = Fin 0, brake = Fin (1 / 10)\<rparr>
   \<and> control_ego (Fin (5 / 2))
     \<lparr>egoCarStop = False, FCW_Activate = True, Deceleration = Fin (1 / 10), AEB_Status = False\<rparr> False
     = \<lparr>throttle = Fin 0, steer = Fin 0, brake = Fin 1\<rparr>"
  using control_ego_no_override
    [of "\<lparr>egoCarStop = False, FCW_Activate = True, Deceleration = Fin (1 / 10), AEB_Status = False\<rparr>"
        False "Fin 3"]
    control_ego_no_override
    [of "\<lparr>egoCarStop = False, FCW_Activate = True, Deceleration = Fin (1 / 10), AEB_Status = False\<rparr>"
        False "Fin (5 / 2)"]
  by (simp add: fgt_def py_max_def fsub_def)

text \<open>
  Claim C8, as stated: for every decision, also with a deceleration outside \<open>[0,1]\<close>,
  every elapsed time and every collision flag, the command has throttle and brake in
  \<open>[0,1]\<close> and steer in \<open>[-1,1]\<close>. It fails: \<open>control_ego\<close> copies the deceleration
  into the brake unclamped, so with deceleration 2.0, no override and elapsed time 3.0
  the brake is 2.0.
\<close>

theorem control_ego_range_counterexample:
  "\<not> (in_range 0 1 (throttle (control_ego (Fin 3)
          \<lparr>egoCarStop = False, FCW_Activate = False, Deceleration = Fin 2, AEB_Status = False\<rparr> False))
     \<and> in_range 0 1 (brake (control_ego (Fin 3)
          \<lparr>egoCarStop = False, FCW_Activate = False, Deceleration = Fin 2, AEB_Status = False\<rparr> False))
     \<and> in_range (- 1) 1 (steer (control_ego (Fin 3)
          \<lparr>egoCarStop = False, FCW_Activate = False, Deceleration = Fin 2, AEB_Status = False\<rparr> False)))"
  by (simp add: control_ego_def VehicleControl_init_def in_range_def fgt_def py_max_def fsub_def)

lemma in_range_throttle:
  "in_range 0 1 (Deceleration sd) \<Longrightarrow>
   in_range 0 1 (py_max (Fin (3 / 10)) (fsub (Fin (1 / 2)) (Deceleration sd)))"
  by (cases "Deceleration sd") (auto simp add: in_range_def py_max_def fsub_def fgt_def)

text \<open>
  Claim C8, amended: the command has throttle and brake in \<open>[0,1]\<close> and steer in
  \<open>[-1,1]\<close> exactly when an override applies, or the elapsed time is not greater than
  2.5, or the deceleration lies in \<open>[0,1]\<close>.
\<close>

theorem control_ego_range:
  "(in_range 0 1 (throttle (control_ego t sd coll))
      \<and> in_range 0 1 (brake (control_ego t sd coll))
      \<and> in_range (- 1) 1 (steer (control_ego t sd coll)))
   \<longleftrightarrow> (AEB_Status sd \<or> egoCarStop sd \<or> coll \<or> \<not> fgt t (Fin (5 / 2))
        \<or> in_range 0 1 (Deceleration sd))"
proof (cases "AEB_Status sd \<or> egoCarStop sd \<or> coll \<or> \<not> fgt t (Fin (5 / 2))")
  case True
  then have "control_ego t sd coll = \<lparr>throttle = Fin 0, steer = Fin 0, brake = Fin 1\<rparr>"
    using control_ego_override [of sd coll t] control_ego_hold [of t sd coll] by blast
  with True show ?thesis by (auto simp add: in_range_def)
next
  case False
  then have "control_ego t sd coll =
     \<lparr>throttle = py_max (Fin (3 / 10)) (fsub (Fin (1 / 2)) (Deceleration sd)),
      steer = Fin 0, brake = Deceleration sd\<rparr>"
    using control_ego_drive [of sd coll t] by blast
  with False in_range_throttle [of sd] show ?thesis by (auto simp add: in_range_def)
qed

theorem control_ego_range_witness:
  "in_range 0 1 (Fin (1 / 4))
   \<and> in_range 0 1 (throttle (control_ego (Fin 3)
        \<lparr>egoCarStop = False, FCW_Activate = False, Deceleration = Fin (1 / 4), AEB_Status = False\<rparr> False))
   \<and> in_range 0 1 (brake (control_ego (Fin 3)
        \<lparr>egoCarStop = False, FCW_Activate = False, Deceleration = Fin (1 / 4), AEB_Status = False\<rparr> False))
   \<and> in_range (- 1) 1 (steer (control_ego (Fin 3)
        \<lparr>egoCarStop = False, FCW_Activate = False, Deceleration = Fin (1 / 4), AEB_Status = False\<rparr> False))"
proof -
  have h: "in_range 0 1 (Fin (1 / 4))" by (simp add: in_range_def)
  with control_ego_range
    [of "Fin 3" "\<lparr>egoCarStop = False, FCW_Activate = False, Deceleration = Fin (1 / 4), AEB_Status = False\<rparr>" False]
  show ?thesis by simp
qed

section \<open>Time to collision: the closing speed\<close>

text \<open>
  Claim C5. \<open>calculate_ttc\<close> returns plus infinity when the relative velocity is at most
  0 and the quotient \<open>distance / relative_velocity\<close> when it is greater than 0. The first
  two conjuncts state it for finite arguments, the last two for all floats, where the
  quotient is Python's float division, which does not raise here.
\<close>

theorem calculate_ttc_closing_speed:
  "(r \<le> 0 \<longrightarrow> calculate_ttc (Fin d) (Fin r) = Inr PInf)
   \<and> (0 < r \<longrightarrow> calculate_ttc (Fin d) (Fin r) = Inr (Fin (d / r)))
   \<and> (fle rv (Fin 0) \<longrightarrow> calculate_ttc dv rv = Inr PInf)
   \<and> (fgt rv (Fin 0) \<longrightarrow> calculate_ttc dv rv = fdiv dv rv \<and> (\<exists>q. fdiv dv rv = Inr q))"
proof -
  have "fgt rv (Fin 0) \<Longrightarrow> calculate_ttc dv rv = fdiv dv rv \<and> (\<exists>q. fdiv dv rv = Inr q)"
    by (cases dv; cases rv) (auto simp add: calculate_ttc_def fgt_def)
  then show ?thesis
    by (auto simp add: calculate_ttc_def)
qed

theorem calculate_ttc_closing_speed_witness:
  "calculate_ttc (Fin 10) (Fin (- 1)) = Inr PInf
   \<and> calculate_ttc (Fin 10) (Fin 4) = Inr (Fin (5 / 2))
   \<and> calculate_ttc (Fin 10) NInf = Inr PInf
   \<and> calculate_ttc (Fin 10) PInf = Inr (Fin 0)"
  using calculate_ttc_closing_speed [of "- 1" 10 NInf "Fin 10"]
    calculate_ttc_closing_speed [of 4 10 PInf "Fin 10"]
  by (simp add: fgt_def)

section \<open>The wire format: packing and unpacking\<close>

lemma length_pack_d: "length (pack_d w) = 8"
  by (simp add: pack_d_def)

lemma pack_d_unfold:
  "pack_d w = [ucast w, ucast (drop_bit 8 w), ucast (drop_bit 16 w), ucast (drop_bit 24 w),
               ucast (drop_bit 32 w), ucast (drop_bit 40 w), ucast (drop_bit 48 w), ucast (drop_bit 56 w)]"
  by (simp add: pack_d_def upt_rec)

lemma byte_step: "ucast (ucast x :: byte) OR push_bit 8 (drop_bit 8 x) = (x :: float64)"
proof (rule bit_word_eqI)
  fix n :: nat
  assume "n < LENGTH(64)"
  then show "bit (ucast (ucast x :: byte) OR push_bit 8 (drop_bit 8 x)) n = bit x n"
    by (cases "n < 8") (auto simp add: bit_simps)
qed

lemma byte_last: "ucast (ucast (drop_bit 56 x) :: byte) = (drop_bit 56 x :: float64)"
  by (rule bit_word_eqI) (auto simp add: bit_simps dest: bit_imp_le_length)

lemma le_word_pack_d: "le_word (pack_d w) = w"
proof -
  have s7: "le_word [ucast (drop_bit 56 w)] = drop_bit 56 w"
    by (simp add: byte_last)
  have s6: "le_word [ucast (drop_bit 48 w), ucast (drop_bit 56 w)] = drop_bit 48 w"
    using byte_step [of "drop_bit 48 w"] s7 by simp
  have s5: "le_word [ucast (drop_bit 40 w), ucast (drop_bit 48 w), ucast (drop_bit 56 w)] = drop_bit 40 w"
    using byte_step [of "drop_bit 40 w"] s6 by simp
  have s4: "le_word [ucast (drop_bit 32 w), ucast (drop_bit 40 w), ucast (drop_bit 48 w), ucast (drop_bit 56 w)] = drop_bit 32 w"
    using byte_step [of "drop_bit 32 w"] s5 by simp
  have s3: "le_word [ucast (drop_bit 24 w), ucast (drop_bit 32 w), ucast (drop_bit 40 w), ucast (drop_bit 48 w), ucast (drop_bit 56 w)] = drop_bit 24 w"
    using byte_step [of "drop_bit 24 w"] s4 by simp
  have s2: "le_word [ucast (drop_bit 16 w), ucast (drop_bit 24 w), ucast (drop_bit 32 w), ucast (drop_bit 40 w), ucast (drop_bit 48 w), ucast (drop_bit 56 w)] = drop_bit 16 w"
    using byte_step [of "drop_bit 16 w"] s3 by simp
  have s1: "le_word [ucast (drop_bit 8 w), ucast (drop_bit 16 w), ucast (drop_bit 24 w), ucast (drop_bit 32 w), ucast (drop_bit 40 w), ucast (drop_bit 48 w), ucast (drop_bit 56 w)] = drop_bit 8 w"
    using byte_step [of "drop_bit 8 w"] s2 by simp
  show ?thesis
    unfolding pack_d_unfold using byte_step [of w] s1 by simp
qed

lemma unpack_d_8: "length bs = 8 \<Longrightarrow> unpack_d bs = Inr (valof (le_word bs))"
  by (simp add: unpack_d_def unpack_bits_def)

lemma unpack_d_not8: "length bs \<noteq> 8 \<Longrightarrow> unpack_d bs = Inl StructError"
  by (simp add: unpack_d_def unpack_bits_def)

lemma unpack_d_pack_d: "unpack_d (pack_d w) = Inr (valof w)"
  by (simp add: unpack_d_8 length_pack_d le_word_pack_d)

lemma unpack_bits_pack_d: "unpack_bits (pack_d w) = Inr w"
  by (simp add: unpack_bits_def length_pack_d le_word_pack_d)

section \<open>Sending\<close>

lemma sendall_rx: "rx (snd (sendall c bs)) = rx c"
  by (simp add: sendall_def split: list.splits)

lemma sends_ok_Nil: "sends_ok n []"
  by (cases n) simp_all

lemma send_data_eq:
  "send_data c data = send_values c [MIO_Distance data, MIO_Velocity data, Ego_Velocity data]"
  by (simp add: send_data_def split: prod.splits sum.splits)

lemma send_values_ok:
  "sends_ok (length vals) (tx c) \<Longrightarrow>
   fst (send_values c vals) = Inr ()
   \<and> sent (snd (send_values c vals)) = sent c @ concat (map pack_d vals)
   \<and> rx (snd (send_values c vals)) = rx c
   \<and> tx (snd (send_values c vals)) = drop (length vals) (tx c)"
proof (induction vals arbitrary: c)
  case Nil
  then show ?case by simp
next
  case (Cons v vals)
  show ?case
  proof (cases "tx c")
    case Nil
    then have s: "sendall c (pack_d v) = (Inr (), c\<lparr>sent := sent c @ pack_d v\<rparr>)"
      by (simp add: sendall_def)
    have "sends_ok (length vals) (tx (c\<lparr>sent := sent c @ pack_d v\<rparr>))"
      using Nil by (simp add: sends_ok_Nil)
    from Cons.IH [OF this] s Nil show ?thesis by simp
  next
    case (Cons ok t)
    with Cons.prems have ok: "ok" and rest: "sends_ok (length vals) t" by simp_all
    from Cons ok have s: "sendall c (pack_d v) = (Inr (), c\<lparr>tx := t, sent := sent c @ pack_d v\<rparr>)"
      by (simp add: sendall_def)
    have "sends_ok (length vals) (tx (c\<lparr>tx := t, sent := sent c @ pack_d v\<rparr>))"
      using rest by simp
    from Cons.IH [OF this] s Cons show ?thesis by simp
  qed
qed

lemma send_values_fail:
  "\<not> sends_ok (length vals) (tx c) \<Longrightarrow>
   (\<exists>e. fst (send_values c vals) = Inl e) \<and> rx (snd (send_values c vals)) = rx c"
proof (induction vals arbitrary: c)
  case Nil
  then show ?case by simp
next
  case (Cons v vals)
  show ?case
  proof (cases "tx c")
    case Nil
    with Cons.prems show ?thesis by simp
  next
    case (Cons ok t)
    show ?thesis
    proof (cases ok)
      case True
      with Cons have s: "sendall c (pack_d v) = (Inr (), c\<lparr>tx := t, sent := sent c @ pack_d v\<rparr>)"
        by (simp add: sendall_def)
      have "\<not> sends_ok (length vals) (tx (c\<lparr>tx := t, sent := sent c @ pack_d v\<rparr>))"
        using Cons.prems Cons True by simp
      from Cons.IH [OF this] s show ?thesis by simp
    next
      case False
      with Cons show ?thesis by (simp add: sendall_def)
    qed
  qed
qed

lemma send_data_ok:
  assumes "sends_ok 3 (tx c)"
  shows "fst (send_data c data) = Inr ()"
    and "sent (snd (send_data c data)) =
           sent c @ pack_d (MIO_Distance data) @ pack_d (MIO_Velocity data) @ pack_d (Ego_Velocity data)"
    and "rx (snd (send_data c data)) = rx c"
    and "tx (snd (send_data c data)) = drop 3 (tx c)"
  using send_values_ok [of "[MIO_Distance data, MIO_Velocity data, Ego_Velocity data]" c] assms
  by (simp_all add: send_data_eq eval_nat_numeral)

lemma send_data_fail:
  assumes "\<not> sends_ok 3 (tx c)"
  shows "\<exists>e. fst (send_data c data) = Inl e"
  using send_values_fail [of "[MIO_Distance data, MIO_Velocity data, Ego_Velocity data]" c] assms
  by (simp add: send_data_eq eval_nat_numeral)

lemma decode_outbound_packed:
  "decode_outbound (pack_d d @ pack_d v @ pack_d g) =
     Inr \<lparr>MIO_Distance = d, MIO_Velocity = v, Ego_Velocity = g\<rparr>"
  by (simp add: decode_outbound_def length_pack_d unpack_bits_pack_d)

text \<open>
  Claim C9. When the three \<^verbatim>\<open>sendall\<close> calls succeed, \<open>send_data\<close> appends to the
  connection exactly 24 bytes: the 8 bytes of the distance, then the 8 bytes of the
  other actor's speed, then the 8 bytes of the ego speed. Decoding these 24 bytes with
  the symmetric codec gives back the three doubles, bit for bit (so within any
  floating-point precision).
\<close>

theorem send_data_roundtrip:
  assumes "sends_ok 3 (tx c)"
  shows "fst (send_data c data) = Inr ()
     \<and> sent (snd (send_data c data)) =
         sent c @ pack_d (MIO_Distance data) @ pack_d (MIO_Velocity data) @ pack_d (Ego_Velocity data)
     \<and> length (pack_d (MIO_Distance data)) = 8
     \<and> length (pack_d (MIO_Velocity data)) = 8
     \<and> length (pack_d (Ego_Velocity data)) = 8
     \<and> length (pack_d (MIO_Distance data) @ pack_d (MIO_Velocity data) @ pack_d (Ego_Velocity data)) = 24
     \<and> decode_outbound
         (pack_d (MIO_Distance data) @ pack_d (MIO_Velocity data) @ pack_d (Ego_Velocity data))
       = Inr data"
  using send_data_ok [OF assms, of data]
  by (simp add: length_pack_d decode_outbound_packed)

theorem send_data_roundtrip_witness:
  "fst (send_data \<lparr>rx = [], tx = [True, True, True, False], sent = []\<rparr>
          \<lparr>MIO_Distance = 0x4024000000000000, MIO_Velocity = 0x3FF0000000000000,
           Ego_Velocity = 0x4000000000000000\<rparr>) = Inr ()
   \<and> sent (snd (send_data \<lparr>rx = [], tx = [True, True, True, False], sent = []\<rparr>
          \<lparr>MIO_Distance = 0x4024000000000000, MIO_Velocity = 0x3FF0000000000000,
           Ego_Velocity = 0x4000000000000000\<rparr>))
      = [0, 0, 0, 0, 0, 0, 0x24, 0x40, 0, 0, 0, 0, 0, 0, 0xF0, 0x3F, 0, 0, 0, 0, 0, 0, 0, 0x40]
   \<and> decode_outbound
        [0, 0, 0, 0, 0, 0, 0x24, 0x40, 0, 0, 0, 0, 0, 0, 0xF0, 0x3F, 0, 0, 0, 0, 0, 0, 0, 0x40]
      = Inr \<lparr>MIO_Distance = 0x4024000000000000, MIO_Velocity = 0x3FF0000000000000,
           Ego_Velocity = 0x4000000000000000\<rparr>"
proof -
  have h: "sends_ok 3 (tx \<lparr>rx = [], tx = [True, True, True, False], sent = []\<rparr>)"
    by (simp add: eval_nat_numeral)
  have p: "pack_d 0x4024000000000000 = [0, 0, 0, 0, 0, 0, 0x24, 0x40]"
    "pack_d 0x3FF0000000000000 = [0, 0, 0, 0, 0, 0, 0xF0, 0x3F]"
    "pack_d 0x4000000000000000 = [0, 0, 0, 0, 0, 0, 0, 0x40]"
    by (simp_all add: pack_d_unfold)
  show ?thesis
    using send_data_roundtrip [OF h, of
          "\<lparr>MIO_Distance = 0x4024000000000000, MIO_Velocity = 0x3FF0000000000000,
           Ego_Velocity = 0x4000000000000000\<rparr>"]
    by (simp add: p)
qed

section \<open>Receiving\<close>

lemma recv_Nil: "rx c = [] \<Longrightarrow> recv c = (Inl SocketTimeout, c)"
  by (simp add: recv_def)

lemma recv_Data: "rx c = Data bs # r \<Longrightarrow> recv c = (Inr bs, c\<lparr>rx := r\<rparr>)"
  by (simp add: recv_def)

lemma recv_Timeout: "rx c = SockTimeout # r \<Longrightarrow> recv c = (Inl SocketTimeout, c\<lparr>rx := r\<rparr>)"
  by (simp add: recv_def)

lemma recv_Error: "rx c = SockError # r \<Longrightarrow> recv c = (Inl OSError, c\<lparr>rx := r\<rparr>)"
  by (simp add: recv_def)

text \<open>A completed loop has gathered at most one value per iteration.\<close>

lemma recv_loop_length:
  "fst (recv_loop n vals c) = Completed vs \<Longrightarrow> length vs \<le> length vals + n"
proof (induction n arbitrary: vals c)
  case 0
  then show ?case by simp
next
  case (Suc n)
  show ?case
  proof (cases "rx c")
    case Nil
    with Suc.prems show ?thesis by (simp add: recv_Nil)
  next
    case (Cons r rs)
    show ?thesis
    proof (cases r)
      case (Data bs)
      with Cons have rc: "recv c = (Inr bs, c\<lparr>rx := rs\<rparr>)" by (simp add: recv_Data)
      show ?thesis
      proof (cases "length bs < 8")
        case True
        with Suc.prems rc have "fst (recv_loop n vals (c\<lparr>rx := rs\<rparr>)) = Completed vs" by simp
        from Suc.IH [OF this] show ?thesis by simp
      next
        case False
        show ?thesis
        proof (cases "length bs = 8")
          case True
          with Suc.prems rc have "fst (recv_loop n (vals @ [valof (le_word bs)]) (c\<lparr>rx := rs\<rparr>)) = Completed vs"
            by (simp add: unpack_d_8)
          from Suc.IH [OF this] show ?thesis by simp
        next
          case f: False
          with False Suc.prems rc show ?thesis by (simp add: unpack_d_not8)
        qed
      qed
    next
      case SockTimeout
      with Cons Suc.prems show ?thesis by (simp add: recv_Timeout)
    next
      case SockError
      with Cons Suc.prems show ?thesis by (simp add: recv_Error)
    qed
  qed
qed

lemma recv_loop_short:
  "\<not> full_reads n (rx c) \<Longrightarrow> fst (recv_loop n vals c) = Completed vs \<Longrightarrow> length vs < length vals + n"
proof (induction n arbitrary: vals c)
  case 0
  then show ?case by simp
next
  case (Suc n)
  show ?case
  proof (cases "rx c")
    case Nil
    with Suc.prems show ?thesis by (simp add: recv_Nil)
  next
    case (Cons r rs)
    show ?thesis
    proof (cases r)
      case (Data bs)
      with Cons have rc: "recv c = (Inr bs, c\<lparr>rx := rs\<rparr>)" by (simp add: recv_Data)
      show ?thesis
      proof (cases "length bs < 8")
        case True
        with Suc.prems rc have "fst (recv_loop n vals (c\<lparr>rx := rs\<rparr>)) = Completed vs" by simp
        from recv_loop_length [OF this] show ?thesis by simp
      next
        case False
        show ?thesis
        proof (cases "length bs = 8")
          case True
          with Suc.prems rc have a: "fst (recv_loop n (vals @ [valof (le_word bs)]) (c\<lparr>rx := rs\<rparr>)) = Completed vs"
            by (simp add: unpack_d_8)
          from True Suc.prems(1) Cons Data have b: "\<not> full_reads n (rx (c\<lparr>rx := rs\<rparr>))" by simp
          from Suc.IH [OF b a] show ?thesis by simp
        next
          case f: False
          with False Suc.prems rc show ?thesis by (simp add: unpack_d_not8)
        qed
      qed
    next
      case SockTimeout
      with Cons Suc.prems show ?thesis by (simp add: recv_Timeout)
    next
      case SockError
      with Cons Suc.prems show ?thesis by (simp add: recv_Error)
    qed
  qed
qed

lemma recv_loop_Returned:
  "fst (recv_loop n vals c) = Returned d \<Longrightarrow> d = safe_default"
proof (induction n arbitrary: vals c)
  case 0
  then show ?case by simp
next
  case (Suc n)
  then show ?case
    by (auto simp add: recv_def split: list.splits recv_result.splits if_splits sum.splits pyexn.splits)
qed

lemma decode_values_short: "length vs < 4 \<Longrightarrow> \<exists>e. decode_values vs = Inl e"
  by (auto simp add: decode_values_def bool_round_item_def item_def split: sum.splits)

lemma receive_data_Inr: "\<exists>r. fst (receive_data c) = Inr r"
  by (simp add: receive_data_def split: prod.splits sum.splits)

lemma receive_data_default:
  assumes "\<not> full_reads 4 (rx c)"
  shows "fst (receive_data c) = Inr safe_default"
proof (cases "fst (recv_loop 4 [] c)")
  case (Completed vs)
  from recv_loop_short [OF assms this] have "length vs < 4" by simp
  then obtain e where "decode_values vs = Inl e" using decode_values_short by blast
  with Completed show ?thesis
    by (cases "recv_loop 4 [] c") (simp add: receive_data_def receive_data_try_def)
next
  case (Returned d)
  then have "d = safe_default" by (rule recv_loop_Returned)
  with Returned show ?thesis
    by (cases "recv_loop 4 [] c") (simp add: receive_data_def receive_data_try_def)
next
  case (Raised e)
  then show ?thesis
    by (cases "recv_loop 4 [] c") (simp add: receive_data_def receive_data_try_def)
qed

lemma recv_loop_full4:
  assumes "rx c = Data b0 # Data b1 # Data b2 # Data b3 # rest"
    and "length b0 = 8" "length b1 = 8" "length b2 = 8" "length b3 = 8"
  shows "recv_loop 4 [] c =
    (Completed [valof (le_word b0), valof (le_word b1), valof (le_word b2), valof (le_word b3)],
     c\<lparr>rx := rest\<rparr>)"
  using assms by (simp add: eval_nat_numeral recv_def unpack_d_8)

lemma valof_double_1_0: "valof double_1_0 = Fin 1"
  by (simp add: valof_def double_1_0_def Let_def)

lemma valof_double_0_0: "valof double_0_0 = Fin 0"
  by (simp add: valof_def double_0_0_def Let_def)

lemma valof_double_0_3: "valof double_0_3 = Fin (5404319552844595 / 18014398509481984)"
  by (simp add: valof_def double_0_3_def Let_def)

lemma valof_double_0_6: "valof double_0_6 = Fin (5404319552844595 / 9007199254740992)"
  by (simp add: valof_def double_0_6_def Let_def)

lemma valof_double_0_4: "valof double_0_4 = Fin (3602879701896397 / 9007199254740992)"
  by (simp add: valof_def double_0_4_def Let_def)

lemma doubles_of_literals:
  "valof double_1_0 = Fin 1"
  "valof double_0_0 = Fin 0"
  "\<exists>d. valof double_0_3 = Fin d \<and> \<bar>d - 3 / 10\<bar> < 1 / 10 ^ 16"
  "\<exists>d. valof double_0_6 = Fin d \<and> \<bar>d - 6 / 10\<bar> < 1 / 10 ^ 16"
  "\<exists>d. valof double_0_4 = Fin d \<and> \<bar>d - 4 / 10\<bar> < 1 / 10 ^ 16"
proof -
  show "valof double_1_0 = Fin 1" by (rule valof_double_1_0)
  show "valof double_0_0 = Fin 0" by (rule valof_double_0_0)
  show "\<exists>d. valof double_0_3 = Fin d \<and> \<bar>d - 3 / 10\<bar> < 1 / 10 ^ 16"
    by (rule exI [of _ "5404319552844595 / 18014398509481984"]) (simp add: valof_double_0_3)
  show "\<exists>d. valof double_0_6 = Fin d \<and> \<bar>d - 6 / 10\<bar> < 1 / 10 ^ 16"
    by (rule exI [of _ "5404319552844595 / 9007199254740992"]) (simp add: valof_double_0_6)
  show "\<exists>d. valof double_0_4 = Fin d \<and> \<bar>d - 4 / 10\<bar> < 1 / 10 ^ 16"
    by (rule exI [of _ "3602879701896397 / 9007199254740992"]) (simp add: valof_double_0_4)
qed

lemma round_half_even_nearest: "\<bar>x - of_int (round_half_even x)\<bar> \<le> 1 / 2"
proof -
  have "of_int \<lfloor>x\<rfloor> \<le> x" "x < of_int \<lfloor>x\<rfloor> + 1" by linarith+
  then show ?thesis
    by (auto simp add: round_half_even_def Let_def)
qed

lemma decode_values_finite:
  "decode_values [Fin x0, Fin x1, v2, Fin x3] =
     Inr \<lparr>egoCarStop = (round_half_even x0 \<noteq> 0), FCW_Activate = (round_half_even x1 \<noteq> 0),
          Deceleration = v2, AEB_Status = (round_half_even x3 \<noteq> 0)\<rparr>"
  by (simp add: decode_values_def bool_round_item_def item_def)

lemma receive_data_full4:
  assumes "rx c = Data b0 # Data b1 # Data b2 # Data b3 # rest"
    and "length b0 = 8" "length b1 = 8" "length b2 = 8" "length b3 = 8"
  shows "receive_data c =
    (case decode_values [valof (le_word b0), valof (le_word b1), valof (le_word b2), valof (le_word b3)] of
       Inl e \<Rightarrow> (Inr safe_default, c\<lparr>rx := rest\<rparr>)
     | Inr r \<Rightarrow> (Inr r, c\<lparr>rx := rest\<rparr>))"
  using recv_loop_full4 [OF assms]
  by (simp add: receive_data_def receive_data_try_def split: sum.splits)

lemma valof_double_inf: "valof double_inf = PInf"
  by (simp add: valof_def double_inf_def Let_def)

lemma decode_values_nonfinite:
  "\<not> is_finite v0 \<or> \<not> is_finite v1 \<or> \<not> is_finite v3 \<Longrightarrow> \<exists>e. decode_values [v0, v1, v2, v3] = Inl e"
  by (cases v0; cases v1; cases v3)
    (simp_all add: decode_values_def bool_round_item_def item_def)

lemma receive_data_try_full4:
  assumes "rx c = Data b0 # Data b1 # Data b2 # Data b3 # rest"
    and "length b0 = 8" "length b1 = 8" "length b2 = 8" "length b3 = 8"
  shows "receive_data_try c =
    (decode_values [valof (le_word b0), valof (le_word b1), valof (le_word b2), valof (le_word b3)],
     c\<lparr>rx := rest\<rparr>)"
  using recv_loop_full4 [OF assms] by (simp add: receive_data_try_def)

lemma recv_loop_times_out:
  "times_out n (rx c) \<Longrightarrow> fst (recv_loop n vals c) = Returned safe_default"
proof (induction n arbitrary: vals c)
  case 0
  then show ?case by simp
next
  case (Suc n)
  show ?case
  proof (cases "rx c")
    case Nil
    then show ?thesis by (simp add: recv_Nil)
  next
    case (Cons r rs)
    show ?thesis
    proof (cases r)
      case (Data bs)
      with Cons have rc: "recv c = (Inr bs, c\<lparr>rx := rs\<rparr>)" by (simp add: recv_Data)
      from Suc.prems Cons Data have le: "length bs \<le> 8" and t: "times_out n (rx (c\<lparr>rx := rs\<rparr>))"
        by simp_all
      show ?thesis
      proof (cases "length bs < 8")
        case True
        with rc Suc.IH [OF t] show ?thesis by simp
      next
        case False
        with le have "length bs = 8" by simp
        with rc Suc.IH [OF t] show ?thesis by (simp add: unpack_d_8)
      qed
    next
      case SockTimeout
      with Cons show ?thesis by (simp add: recv_Timeout)
    next
      case SockError
      with Cons Suc.prems show ?thesis by simp
    qed
  qed
qed

lemma recv_loop_Returned_times_out:
  "fst (recv_loop n vals c) = Returned d \<Longrightarrow> times_out n (rx c)"
proof (induction n arbitrary: vals c)
  case 0
  then show ?case by simp
next
  case (Suc n)
  show ?case
  proof (cases "rx c")
    case Nil
    then show ?thesis by simp
  next
    case (Cons r rs)
    show ?thesis
    proof (cases r)
      case (Data bs)
      with Cons have rc: "recv c = (Inr bs, c\<lparr>rx := rs\<rparr>)" by (simp add: recv_Data)
      show ?thesis
      proof (cases "length bs < 8")
        case True
        with rc Suc.prems have "fst (recv_loop n vals (c\<lparr>rx := rs\<rparr>)) = Returned d" by simp
        from Suc.IH [OF this] True Cons Data show ?thesis by simp
      next
        case False
        show ?thesis
        proof (cases "length bs = 8")
          case True
          with rc Suc.prems have "fst (recv_loop n (vals @ [valof (le_word bs)]) (c\<lparr>rx := rs\<rparr>)) = Returned d"
            by (simp add: unpack_d_8)
          from Suc.IH [OF this] True Cons Data show ?thesis by simp
        next
          case f: False
          with False rc Suc.prems show ?thesis by (simp add: unpack_d_not8)
        qed
      qed
    next
      case SockTimeout
      with Cons show ?thesis by simp
    next
      case SockError
      with Cons Suc.prems show ?thesis by (simp add: recv_Error)
    qed
  qed
qed

lemma receive_data_times_out:
  assumes "times_out 4 (rx c)"
  shows "fst (receive_data c) = Inr safe_default"
  using recv_loop_times_out [OF assms, of "[]"]
  by (cases "recv_loop 4 [] c") (simp add: receive_data_def receive_data_try_def)

text \<open>
  Claim C7, as stated: decoding reads four 8-byte floats, rounds fields 1, 2 and 4 to
  the nearest integer and reads them as booleans, and keeps field 3. It fails when one
  of the fields 1, 2, 4 is an infinity or NaN: \<^verbatim>\<open>round\<close> raises, and no field of the
  message is decoded. For the four full reads 1.0, 0.0, 0.3, inf the call does not
  return stop true and deceleration 0.3.
\<close>

theorem receive_data_inf_counterexample:
  "valof double_inf = PInf
   \<and> receive_data \<lparr>rx = [Data (pack_d double_1_0), Data (pack_d double_0_0),
                         Data (pack_d double_0_3), Data (pack_d double_inf)], tx = [], sent = []\<rparr>
       = (Inr \<lparr>egoCarStop = False, FCW_Activate = False, Deceleration = Fin 0,
               AEB_Status = False\<rparr>, \<lparr>rx = [], tx = [], sent = []\<rparr>)"
  by (simp add: receive_data_full4 [of _ "pack_d double_1_0" "pack_d double_0_0" "pack_d double_0_3" "pack_d double_inf" "[]"]
        length_pack_d le_word_pack_d valof_double_1_0 valof_double_0_0 valof_double_0_3
        valof_double_inf decode_values_def bool_round_item_def item_def round_half_even_def
        safe_default_def)

text \<open>
  Claim C7, amended. \<open>receive_data\<close> reads four consecutive 8-byte fields, each unpacked
  as a double. When the four reads are full and fields 1, 2 and 4 are finite, each of
  them is rounded to an integer (\<open>round_half_even\<close>, which is within 1/2 of its
  argument) and the flag is true when that integer is not zero; field 3 is kept as it
  is. When one of the fields 1, 2, 4 is an infinity or NaN, the body of \<open>receive_data\<close>
  raises and decodes none of the fields. In particular the doubles 1.0, 0.0, 0.3, 1.0
  decode to stop true, FCW false, deceleration 0.3, AEB true, and 0.6, 0.4, 0.0, 0.0
  decode to stop true, FCW false, deceleration 0.0, AEB false.
\<close>

theorem receive_data_decodes:
  "(rx c = Data b0 # Data b1 # Data b2 # Data b3 # rest
      \<and> length b0 = 8 \<and> length b1 = 8 \<and> length b2 = 8 \<and> length b3 = 8
      \<and> valof (le_word b0) = Fin x0 \<and> valof (le_word b1) = Fin x1 \<and> valof (le_word b3) = Fin x3
    \<longrightarrow> receive_data c =
          (Inr \<lparr>egoCarStop = (round_half_even x0 \<noteq> 0), FCW_Activate = (round_half_even x1 \<noteq> 0),
                Deceleration = valof (le_word b2), AEB_Status = (round_half_even x3 \<noteq> 0)\<rparr>,
           c\<lparr>rx := rest\<rparr>))
   \<and> (rx c = Data b0 # Data b1 # Data b2 # Data b3 # rest
      \<and> length b0 = 8 \<and> length b1 = 8 \<and> length b2 = 8 \<and> length b3 = 8
      \<and> (\<not> is_finite (valof (le_word b0)) \<or> \<not> is_finite (valof (le_word b1))
           \<or> \<not> is_finite (valof (le_word b3)))
    \<longrightarrow> (\<exists>e. receive_data_try c = (Inl e, c\<lparr>rx := rest\<rparr>)))
   \<and> \<bar>x - of_int (round_half_even x)\<bar> \<le> 1 / 2
   \<and> receive_data \<lparr>rx = [Data (pack_d double_1_0), Data (pack_d double_0_0),
                         Data (pack_d double_0_3), Data (pack_d double_1_0)], tx = [], sent = []\<rparr>
       = (Inr \<lparr>egoCarStop = True, FCW_Activate = False, Deceleration = valof double_0_3,
               AEB_Status = True\<rparr>, \<lparr>rx = [], tx = [], sent = []\<rparr>)
   \<and> receive_data \<lparr>rx = [Data (pack_d double_0_6), Data (pack_d double_0_4),
                         Data (pack_d double_0_0), Data (pack_d double_0_0)], tx = [], sent = []\<rparr>
       = (Inr \<lparr>egoCarStop = True, FCW_Activate = False, Deceleration = Fin 0,
               AEB_Status = False\<rparr>, \<lparr>rx = [], tx = [], sent = []\<rparr>)"
proof (intro conjI impI)
  assume a: "rx c = Data b0 # Data b1 # Data b2 # Data b3 # rest
      \<and> length b0 = 8 \<and> length b1 = 8 \<and> length b2 = 8 \<and> length b3 = 8
      \<and> valof (le_word b0) = Fin x0 \<and> valof (le_word b1) = Fin x1 \<and> valof (le_word b3) = Fin x3"
  then have "receive_data c =
    (case decode_values [Fin x0, Fin x1, valof (le_word b2), Fin x3] of
       Inl e \<Rightarrow> (Inr safe_default, c\<lparr>rx := rest\<rparr>)
     | Inr r \<Rightarrow> (Inr r, c\<lparr>rx := rest\<rparr>))"
    using receive_data_full4 [of c b0 b1 b2 b3 rest] by simp
  then show "receive_data c =
          (Inr \<lparr>egoCarStop = (round_half_even x0 \<noteq> 0), FCW_Activate = (round_half_even x1 \<noteq> 0),
                Deceleration = valof (le_word b2), AEB_Status = (round_half_even x3 \<noteq> 0)\<rparr>,
           c\<lparr>rx := rest\<rparr>)"
    by (simp add: decode_values_finite)
next
  assume a: "rx c = Data b0 # Data b1 # Data b2 # Data b3 # rest
      \<and> length b0 = 8 \<and> length b1 = 8 \<and> length b2 = 8 \<and> length b3 = 8
      \<and> (\<not> is_finite (valof (le_word b0)) \<or> \<not> is_finite (valof (le_word b1))
           \<or> \<not> is_finite (valof (le_word b3)))"
  then have t: "receive_data_try c =
    (decode_values [valof (le_word b0), valof (le_word b1), valof (le_word b2), valof (le_word b3)],
     c\<lparr>rx := rest\<rparr>)"
    using receive_data_try_full4 [of c b0 b1 b2 b3 rest] by simp
  from a obtain e where
    "decode_values [valof (le_word b0), valof (le_word b1), valof (le_word b2), valof (le_word b3)] = Inl e"
    using decode_values_nonfinite [of "valof (le_word b0)" "valof (le_word b1)" "valof (le_word b3)"
        "valof (le_word b2)"] by blast
  with t show "\<exists>e. receive_data_try c = (Inl e, c\<lparr>rx := rest\<rparr>)" by simp
next
  show "\<bar>x - of_int (round_half_even x)\<bar> \<le> 1 / 2" by (rule round_half_even_nearest)
next
  show "receive_data \<lparr>rx = [Data (pack_d double_1_0), Data (pack_d double_0_0),
                         Data (pack_d double_0_3), Data (pack_d double_1_0)], tx = [], sent = []\<rparr>
       = (Inr \<lparr>egoCarStop = True, FCW_Activate = False, Deceleration = valof double_0_3,
               AEB_Status = True\<rparr>, \<lparr>rx = [], tx = [], sent = []\<rparr>)"
    by (simp add: receive_data_full4 [of _ "pack_d double_1_0" "pack_d double_0_0" "pack_d double_0_3" "pack_d double_1_0" "[]"]
        length_pack_d le_word_pack_d valof_double_1_0 valof_double_0_0 valof_double_0_3
        decode_values_finite round_half_even_def)
next
  show "receive_data \<lparr>rx = [Data (pack_d double_0_6), Data (pack_d double_0_4),
                         Data (pack_d double_0_0), Data (pack_d double_0_0)], tx = [], sent = []\<rparr>
       = (Inr \<lparr>egoCarStop = True, FCW_Activate = False, Deceleration = Fin 0,
               AEB_Status = False\<rparr>, \<lparr>rx = [], tx = [], sent = []\<rparr>)"
    by (simp add: receive_data_full4 [of _ "pack_d double_0_6" "pack_d double_0_4" "pack_d double_0_0" "pack_d double_0_0" "[]"]
        length_pack_d le_word_pack_d valof_double_0_6 valof_double_0_0 valof_double_0_4
        decode_values_finite round_half_even_def)
qed

theorem receive_data_decodes_witness:
  "receive_data \<lparr>rx = [Data (pack_d double_0_6), Data (pack_d double_1_0),
                       Data (pack_d double_0_4), Data (pack_d double_0_0), SockTimeout],
                 tx = [], sent = []\<rparr>
     = (Inr \<lparr>egoCarStop = True, FCW_Activate = True, Deceleration = valof double_0_4,
             AEB_Status = False\<rparr>, \<lparr>rx = [SockTimeout], tx = [], sent = []\<rparr>)
   \<and> \<not> is_finite (valof double_inf)
   \<and> (\<exists>e. receive_data_try \<lparr>rx = [Data (pack_d double_1_0), Data (pack_d double_0_0),
                       Data (pack_d double_0_3), Data (pack_d double_inf)],
                 tx = [], sent = []\<rparr> = (Inl e, \<lparr>rx = [], tx = [], sent = []\<rparr>))"
  using receive_data_decodes
    [of "\<lparr>rx = [Data (pack_d double_0_6), Data (pack_d double_1_0),
                       Data (pack_d double_0_4), Data (pack_d double_0_0), SockTimeout],
                 tx = [], sent = []\<rparr>"
        "pack_d double_0_6" "pack_d double_1_0" "pack_d double_0_4" "pack_d double_0_0" "[SockTimeout]"
        "5404319552844595 / 9007199254740992" 1 0 0]
    receive_data_decodes
    [of "\<lparr>rx = [Data (pack_d double_1_0), Data (pack_d double_0_0),
                       Data (pack_d double_0_3), Data (pack_d double_inf)],
                 tx = [], sent = []\<rparr>"
        "pack_d double_1_0" "pack_d double_0_0" "pack_d double_0_3" "pack_d double_inf" "[]"]
  by (simp add: length_pack_d le_word_pack_d valof_double_0_6 valof_double_1_0 valof_double_0_0
       valof_double_inf round_half_even_def)

text \<open>
  Claim C10. \<open>receive_data\<close> returns a decision on every sequence of socket outcomes
  (full reads, short reads, timeouts, I/O errors): it never raises, so no failure of the
  link or of the decoding reaches the control loop; and unless the next four outcomes
  are full 8-byte reads, the decision it returns is the default one.
\<close>

theorem receive_data_total:
  "(\<exists>r. fst (receive_data c) = Inr r)
   \<and> (\<forall>e. fst (receive_data c) \<noteq> Inl e)
   \<and> (\<not> full_reads 4 (rx c) \<longrightarrow> fst (receive_data c) = Inr safe_default)"
  using receive_data_Inr [of c] receive_data_default [of c] by auto

theorem receive_data_total_witness:
  "\<not> full_reads 4 [Data [1, 2, 3], SockError]
   \<and> fst (receive_data \<lparr>rx = [Data [1, 2, 3], SockError], tx = [], sent = []\<rparr>) = Inr safe_default"
  using receive_data_total [of "\<lparr>rx = [Data [1, 2, 3], SockError], tx = [], sent = []\<rparr>"]
  by (simp add: eval_nat_numeral)


section \<open>A short read and the fields after it\<close>

lemma pack_doubles:
  "pack_d double_1_0 = [0, 0, 0, 0, 0, 0, 0xF0, 0x3F]"
  "pack_d double_0_0 = [0, 0, 0, 0, 0, 0, 0, 0]"
  by (simp_all add: pack_d_unfold double_1_0_def double_0_0_def)

lemma message_1101_bytes:
  "message_1101 = [0, 0, 0, 0, 0, 0, 0xF0, 0x3F, 0, 0, 0, 0, 0, 0, 0xF0, 0x3F,
                   0, 0, 0, 0, 0, 0, 0, 0, 0, 0, 0, 0, 0, 0, 0xF0, 0x3F]"
  by (simp add: message_1101_def pack_doubles)

lemma split_aligned:
  "split_stream [8, 8, 8, 8, 8, 8, 8, 8] (message_1101 @ message_1101) =
     [Data (pack_d double_1_0), Data (pack_d double_1_0), Data (pack_d double_0_0), Data (pack_d double_1_0),
      Data (pack_d double_1_0), Data (pack_d double_1_0), Data (pack_d double_0_0), Data (pack_d double_1_0)]"
  by (simp add: message_1101_bytes pack_doubles)

lemma split_shifted:
  "split_stream [5, 8, 8, 8, 8, 8, 8, 8, 3] (message_1101 @ message_1101) =
     [Data [0, 0, 0, 0, 0],
      Data [0, 0xF0, 0x3F, 0, 0, 0, 0, 0], Data [0, 0xF0, 0x3F, 0, 0, 0, 0, 0],
      Data [0, 0, 0, 0, 0, 0, 0, 0],
      Data [0, 0xF0, 0x3F, 0, 0, 0, 0, 0], Data [0, 0xF0, 0x3F, 0, 0, 0, 0, 0],
      Data [0, 0xF0, 0x3F, 0, 0, 0, 0, 0], Data [0, 0, 0, 0, 0, 0, 0, 0],
      Data [0, 0xF0, 0x3F]]"
  by (simp add: message_1101_bytes)

lemma split_rest:
  "split_stream [8, 8, 8, 8, 3] (drop 29 (message_1101 @ message_1101)) =
     [Data [0, 0xF0, 0x3F, 0, 0, 0, 0, 0], Data [0, 0xF0, 0x3F, 0, 0, 0, 0, 0],
      Data [0, 0xF0, 0x3F, 0, 0, 0, 0, 0], Data [0, 0, 0, 0, 0, 0, 0, 0],
      Data [0, 0xF0, 0x3F]]"
  by (simp add: message_1101_bytes)

lemma split_one:
  "split_stream [8, 8, 8, 8] message_1101 =
     [Data (pack_d double_1_0), Data (pack_d double_1_0), Data (pack_d double_0_0), Data (pack_d double_1_0)]"
  by (simp add: message_1101_bytes pack_doubles)

lemma valof_shifted: "valof (le_word [0, 0xF0, 0x3F, 0, 0, 0, 0, 0]) = Fin (4190208 / 2 ^ 1074)"
  by (simp add: valof_def Let_def)

lemma valof_zero_bytes: "valof (le_word [0, 0, 0, 0, 0, 0, 0, 0]) = Fin 0"
  by (simp add: valof_def Let_def)

lemma round_shifted: "round_half_even (4190208 / 2 ^ 1074) = 0"
  by (simp add: round_half_even_def Let_def)

lemma receive_data_short_first:
  assumes "rx c = Data s # Data b1 # Data b2 # Data b3 # rest"
    and "length s < 8" "length b1 = 8" "length b2 = 8" "length b3 = 8"
  shows "receive_data c = (Inr safe_default, c\<lparr>rx := rest\<rparr>)"
proof -
  have "recv_loop 4 [] c =
      (Completed [valof (le_word b1), valof (le_word b2), valof (le_word b3)], c\<lparr>rx := rest\<rparr>)"
    using assms by (simp add: eval_nat_numeral recv_def unpack_d_8)
  moreover obtain e where "decode_values [valof (le_word b1), valof (le_word b2), valof (le_word b3)] = Inl e"
    using decode_values_short [of "[valof (le_word b1), valof (le_word b2), valof (le_word b3)]"] by auto
  ultimately show ?thesis
    by (simp add: receive_data_def receive_data_try_def)
qed

text \<open>
  Claim C4 says that after a read of fewer than 8 bytes the decoder retries that field
  and never reads the following bytes as shifted field values. The code logs a retry
  and goes on to the next of its four iterations: the partial bytes are dropped, the
  iteration is spent, and later reads start in the middle of a field. Below the peer
  writes the message 1.0, 1.0, 0.0, 1.0 twice. When the first read returns 5 bytes, the
  first call gives the default decision and leaves 3 bytes of the first message unread;
  the second call then decodes stop false, FCW false, a denormal deceleration and AEB
  false from bytes that straddle the fields. Read in 8-byte pieces the same stream
  decodes to stop true, FCW true, deceleration 0.0, AEB true.
\<close>

theorem receive_data_short_read_desync:
  "receive_data \<lparr>rx = split_stream [5, 8, 8, 8, 8, 8, 8, 8, 3] (message_1101 @ message_1101),
                 tx = [], sent = []\<rparr>
     = (Inr safe_default,
        \<lparr>rx = split_stream [8, 8, 8, 8, 3] (drop 29 (message_1101 @ message_1101)),
         tx = [], sent = []\<rparr>)
   \<and> receive_data \<lparr>rx = split_stream [8, 8, 8, 8, 3] (drop 29 (message_1101 @ message_1101)),
                   tx = [], sent = []\<rparr>
     = (Inr \<lparr>egoCarStop = False, FCW_Activate = False,
             Deceleration = Fin (4190208 / 2 ^ 1074), AEB_Status = False\<rparr>,
        \<lparr>rx = [Data [0, 0xF0, 0x3F]], tx = [], sent = []\<rparr>)
   \<and> receive_data \<lparr>rx = split_stream [8, 8, 8, 8, 8, 8, 8, 8] (message_1101 @ message_1101),
                   tx = [], sent = []\<rparr>
     = (Inr \<lparr>egoCarStop = True, FCW_Activate = True, Deceleration = Fin 0, AEB_Status = True\<rparr>,
        \<lparr>rx = split_stream [8, 8, 8, 8] message_1101, tx = [], sent = []\<rparr>)"
proof (intro conjI)
  show "receive_data \<lparr>rx = split_stream [5, 8, 8, 8, 8, 8, 8, 8, 3] (message_1101 @ message_1101),
                 tx = [], sent = []\<rparr>
     = (Inr safe_default,
        \<lparr>rx = split_stream [8, 8, 8, 8, 3] (drop 29 (message_1101 @ message_1101)),
         tx = [], sent = []\<rparr>)"
    unfolding split_shifted split_rest
    by (simp add: receive_data_short_first [of _ "[0, 0, 0, 0, 0]" "[0, 0xF0, 0x3F, 0, 0, 0, 0, 0]"
          "[0, 0xF0, 0x3F, 0, 0, 0, 0, 0]" "[0, 0, 0, 0, 0, 0, 0, 0]"])
next
  show "receive_data \<lparr>rx = split_stream [8, 8, 8, 8, 3] (drop 29 (message_1101 @ message_1101)),
                   tx = [], sent = []\<rparr>
     = (Inr \<lparr>egoCarStop = False, FCW_Activate = False,
             Deceleration = Fin (4190208 / 2 ^ 1074), AEB_Status = False\<rparr>,
        \<lparr>rx = [Data [0, 0xF0, 0x3F]], tx = [], sent = []\<rparr>)"
    unfolding split_rest
    by (simp add: receive_data_full4 [of _ "[0, 0xF0, 0x3F, 0, 0, 0, 0, 0]" "[0, 0xF0, 0x3F, 0, 0, 0, 0, 0]"
          "[0, 0xF0, 0x3F, 0, 0, 0, 0, 0]" "[0, 0, 0, 0, 0, 0, 0, 0]" "[Data [0, 0xF0, 0x3F]]"]
        valof_shifted valof_zero_bytes decode_values_finite round_shifted round_half_even_def
        del: le_word.simps)
next
  show "receive_data \<lparr>rx = split_stream [8, 8, 8, 8, 8, 8, 8, 8] (message_1101 @ message_1101),
                   tx = [], sent = []\<rparr>
     = (Inr \<lparr>egoCarStop = True, FCW_Activate = True, Deceleration = Fin 0, AEB_Status = True\<rparr>,
        \<lparr>rx = split_stream [8, 8, 8, 8] message_1101, tx = [], sent = []\<rparr>)"
    unfolding split_aligned split_one
    by (simp add: receive_data_full4 [of _ "pack_d double_1_0" "pack_d double_1_0" "pack_d double_0_0"
          "pack_d double_1_0"] length_pack_d le_word_pack_d valof_double_1_0 valof_double_0_0
        decode_values_finite round_half_even_def)
qed

section \<open>The control loop: fallback of the decision and the collision latch\<close>

lemma calculate_ttc_total: "\<exists>v. calculate_ttc d rv = Inr v"
  by (cases d; cases rv) (auto simp add: calculate_ttc_def)

lemma tick_eq:
  "tick st ob =
     Inr (\<lparr>sim_time = fadd (sim_time st) (Fin (5 / 100)),
           collision = (collision st \<or> flt (valof (distance ob)) (Fin (5 / 2))),
           decision = fst (exchange (decision st) (link st)
              \<lparr>MIO_Distance = distance ob, MIO_Velocity = cyclist_speed ob,
               Ego_Velocity = ego_speed ob\<rparr>),
           link = snd (exchange (decision st) (link st)
              \<lparr>MIO_Distance = distance ob, MIO_Velocity = cyclist_speed ob,
               Ego_Velocity = ego_speed ob\<rparr>)\<rparr>,
          control_ego (fadd (sim_time st) (Fin (5 / 100)))
            (fst (exchange (decision st) (link st)
              \<lparr>MIO_Distance = distance ob, MIO_Velocity = cyclist_speed ob,
               Ego_Velocity = ego_speed ob\<rparr>))
            (collision st))"
proof -
  obtain v where "calculate_ttc (valof (distance ob))
      (fsub (valof (ego_speed ob)) (valof (cyclist_speed ob))) = Inr v"
    using calculate_ttc_total by blast
  then show ?thesis
    by (auto simp add: tick_def Let_def split: prod.splits)
qed

lemma exchange_None: "exchange sd None data = (sd, None)"
  by (simp add: exchange_def)

lemma exchange_send_fail:
  assumes "\<not> sends_ok 3 (tx c)"
  shows "fst (exchange sd (Some c) data) = sd"
proof -
  obtain e where "fst (send_data c data) = Inl e" using send_data_fail [OF assms] by blast
  then show ?thesis
    by (cases "send_data c data") (simp add: exchange_def)
qed

lemma exchange_recv_fail:
  assumes "sends_ok 3 (tx c)" and "\<not> full_reads 4 (rx c)"
  shows "fst (exchange sd (Some c) data) = safe_default"
proof -
  obtain c' where s: "send_data c data = (Inr (), c')" and r: "rx c' = rx c"
    using send_data_ok(1,3) [OF assms(1), of data] by (cases "send_data c data") auto
  from r assms(2) have "fst (receive_data c') = Inr safe_default"
    using receive_data_default [of c'] by simp
  with s show ?thesis
    by (cases "receive_data c'") (simp add: exchange_def)
qed

lemma send_data_open:
  "send_data \<lparr>rx = r, tx = [], sent = s\<rparr> data =
     (Inr (), \<lparr>rx = r, tx = [], sent = s @ pack_d (MIO_Distance data) @ pack_d (MIO_Velocity data)
                 @ pack_d (Ego_Velocity data)\<rparr>)"
  by (simp add: send_data_eq sendall_def)

lemma receive_data_timeout:
  "receive_data \<lparr>rx = SockTimeout # r, tx = t, sent = s\<rparr> =
     (Inr safe_default, \<lparr>rx = r, tx = t, sent = s\<rparr>)"
  by (simp add: receive_data_def receive_data_try_def eval_nat_numeral recv_def)

lemma valof_double_10_0: "valof double_10_0 = Fin 10"
  by (simp add: valof_def double_10_0_def Let_def)

lemma valof_double_2_0: "valof double_2_0 = Fin 2"
  by (simp add: valof_def double_2_0_def Let_def)

lemma exchange_recv_timeout:
  assumes "sends_ok 3 (tx c)" and "times_out 4 (rx c)"
  shows "fst (exchange sd (Some c) data) = safe_default"
proof -
  obtain c' where s: "send_data c data = (Inr (), c')" and r: "rx c' = rx c"
    using send_data_ok(1,3) [OF assms(1), of data] by (cases "send_data c data") auto
  from r assms(2) have "fst (receive_data c') = Inr safe_default"
    using receive_data_times_out [of c'] by simp
  with s show ?thesis
    by (cases "receive_data c'") (simp add: exchange_def)
qed

text \<open>
  Claim C3, as stated: on a tick with a send failure, a receive timeout or malformed
  data the loop keeps the decision of the previous tick (the default one only when
  there is none). It fails for the receive side: \<open>receive_data\<close> returns the default
  decision on a timeout, and the loop stores what it returns. Here the previous
  decision has AEB active; after the timeout the decision is the default one and the
  ego gets throttle 0.5 and brake 0.
\<close>

theorem tick_timeout_counterexample:
  "tick \<lparr>sim_time = Fin 3, collision = False,
         decision = \<lparr>egoCarStop = False, FCW_Activate = True, Deceleration = Fin 0,
                     AEB_Status = True\<rparr>,
         link = Some \<lparr>rx = [SockTimeout], tx = [], sent = []\<rparr>\<rparr>
        \<lparr>distance = double_10_0, ego_speed = double_0_0, cyclist_speed = double_0_0\<rparr>
   = Inr (\<lparr>sim_time = Fin (61 / 20), collision = False,
           decision = \<lparr>egoCarStop = False, FCW_Activate = False, Deceleration = Fin 0,
                       AEB_Status = False\<rparr>,
           link = Some \<lparr>rx = [], tx = [],
                        sent = pack_d double_10_0 @ pack_d double_0_0 @ pack_d double_0_0\<rparr>\<rparr>,
          \<lparr>throttle = Fin (1 / 2), steer = Fin 0, brake = Fin 0\<rparr>)"
  by (simp add: tick_eq exchange_def send_data_open receive_data_timeout safe_default_def
      valof_double_10_0 control_ego_drive fgt_def py_max_def fsub_def)

text \<open>
  Claim C3, amended: a tick never aborts. Without a connection, or when a
  \<^verbatim>\<open>sendall\<close> of the telemetry fails, the decision of the previous tick is kept. When
  the telemetry is sent and the receive times out, the decision of the tick is the
  default one, whatever the previous decision was.
\<close>

theorem tick_decision_fallback:
  "\<exists>st' ctrl. tick st ob = Inr (st', ctrl)
     \<and> (link st = None \<longrightarrow> decision st' = decision st)
     \<and> (\<forall>c. link st = Some c \<and> \<not> sends_ok 3 (tx c) \<longrightarrow> decision st' = decision st)
     \<and> (\<forall>c. link st = Some c \<and> sends_ok 3 (tx c) \<and> times_out 4 (rx c)
            \<longrightarrow> decision st' = safe_default)"
  by (auto simp add: tick_eq exchange_None exchange_send_fail exchange_recv_timeout)

theorem tick_decision_fallback_witness:
  "sends_ok 3 [] \<and> times_out 4 [Data [1, 2, 3], SockTimeout] \<and> \<not> sends_ok 3 [True, False]
   \<and> (\<exists>st' ctrl.
         tick \<lparr>sim_time = Fin 3, collision = False,
               decision = \<lparr>egoCarStop = False, FCW_Activate = True, Deceleration = Fin 0,
                           AEB_Status = True\<rparr>,
               link = Some \<lparr>rx = [Data [1, 2, 3], SockTimeout], tx = [], sent = []\<rparr>\<rparr>
              \<lparr>distance = double_10_0, ego_speed = double_0_0, cyclist_speed = double_0_0\<rparr>
           = Inr (st', ctrl)
         \<and> decision st' = safe_default)
   \<and> (\<exists>st' ctrl.
         tick \<lparr>sim_time = Fin 3, collision = False,
               decision = \<lparr>egoCarStop = False, FCW_Activate = True, Deceleration = Fin 0,
                           AEB_Status = True\<rparr>,
               link = Some \<lparr>rx = [SockTimeout], tx = [True, False], sent = []\<rparr>\<rparr>
              \<lparr>distance = double_10_0, ego_speed = double_0_0, cyclist_speed = double_0_0\<rparr>
           = Inr (st', ctrl)
         \<and> decision st' = \<lparr>egoCarStop = False, FCW_Activate = True, Deceleration = Fin 0,
                           AEB_Status = True\<rparr>)
   \<and> (\<exists>st' ctrl.
         tick \<lparr>sim_time = Fin 3, collision = False,
               decision = \<lparr>egoCarStop = False, FCW_Activate = True, Deceleration = Fin 0,
                           AEB_Status = True\<rparr>,
               link = None\<rparr>
              \<lparr>distance = double_10_0, ego_speed = double_0_0, cyclist_speed = double_0_0\<rparr>
           = Inr (st', ctrl)
         \<and> decision st' = \<lparr>egoCarStop = False, FCW_Activate = True, Deceleration = Fin 0,
                           AEB_Status = True\<rparr>)"
proof -
  have h: "sends_ok 3 []" "times_out 4 [Data [1, 2, 3], SockTimeout]" "\<not> sends_ok 3 [True, False]"
    by (simp_all add: eval_nat_numeral)
  show ?thesis
    using h
      tick_decision_fallback [of
        "\<lparr>sim_time = Fin 3, collision = False,
               decision = \<lparr>egoCarStop = False, FCW_Activate = True, Deceleration = Fin 0,
                           AEB_Status = True\<rparr>,
               link = Some \<lparr>rx = [Data [1, 2, 3], SockTimeout], tx = [], sent = []\<rparr>\<rparr>"
        "\<lparr>distance = double_10_0, ego_speed = double_0_0, cyclist_speed = double_0_0\<rparr>"]
      tick_decision_fallback [of
        "\<lparr>sim_time = Fin 3, collision = False,
               decision = \<lparr>egoCarStop = False, FCW_Activate = True, Deceleration = Fin 0,
                           AEB_Status = True\<rparr>,
               link = Some \<lparr>rx = [SockTimeout], tx = [True, False], sent = []\<rparr>\<rparr>"
        "\<lparr>distance = double_10_0, ego_speed = double_0_0, cyclist_speed = double_0_0\<rparr>"]
      tick_decision_fallback [of
        "\<lparr>sim_time = Fin 3, collision = False,
               decision = \<lparr>egoCarStop = False, FCW_Activate = True, Deceleration = Fin 0,
                           AEB_Status = True\<rparr>,
               link = None\<rparr>"
        "\<lparr>distance = double_10_0, ego_speed = double_0_0, cyclist_speed = double_0_0\<rparr>"]
    by auto
qed

lemma tick_collision:
  "tick st ob = Inr (st', ctrl) \<Longrightarrow>
   collision st' = (collision st \<or> flt (valof (distance ob)) (Fin (5 / 2)))"
  by (auto simp add: tick_eq)

lemma tick_latched:
  "collision st \<Longrightarrow> tick st ob = Inr (st', ctrl) \<Longrightarrow> collision st' \<and> ctrl = full_brake"
  by (auto simp add: tick_eq control_ego_override full_brake_def)

lemma main_loop_total: "\<exists>st' ctrls. main_loop st obs = Inr (st', ctrls)"
proof (induction obs arbitrary: st)
  case Nil
  then show ?case by simp
next
  case (Cons ob obs)
  obtain st1 c1 where t: "tick st ob = Inr (st1, c1)" by (simp add: tick_eq)
  obtain st2 cs where "main_loop st1 obs = Inr (st2, cs)" using Cons.IH by blast
  with t show ?case by simp
qed

lemma main_loop_latched:
  "collision st \<Longrightarrow> main_loop st obs = Inr (st', ctrls) \<Longrightarrow>
   collision st' \<and> length ctrls = length obs \<and> (\<forall>c \<in> set ctrls. c = full_brake)"
proof (induction obs arbitrary: st st' ctrls)
  case Nil
  then show ?case by simp
next
  case (Cons ob obs)
  obtain st1 c1 where t: "tick st ob = Inr (st1, c1)" by (simp add: tick_eq)
  obtain st2 cs where m: "main_loop st1 obs = Inr (st2, cs)" using main_loop_total by blast
  from tick_latched [OF Cons.prems(1) t] have c: "collision st1" "c1 = full_brake" by simp_all
  from Cons.IH [OF c(1) m] Cons.prems(2) t m c(2) show ?case by auto
qed

lemma main_loop_append:
  "main_loop st (xs @ ys) =
     (case main_loop st xs of
        Inl e \<Rightarrow> Inl e
      | Inr (st1, cs1) \<Rightarrow>
          (case main_loop st1 ys of
             Inl e \<Rightarrow> Inl e
           | Inr (st2, cs2) \<Rightarrow> Inr (st2, cs1 @ cs2)))"
proof (induction xs arbitrary: st)
  case Nil
  then show ?case by (simp split: sum.splits)
next
  case (Cons x xs)
  then show ?case by (simp split: sum.splits prod.splits)
qed

lemma main_loop_length:
  "main_loop st obs = Inr (st', ctrls) \<Longrightarrow> length ctrls = length obs"
proof (induction obs arbitrary: st st' ctrls)
  case Nil
  then show ?case by simp
next
  case (Cons ob obs)
  then show ?case by (auto split: sum.splits prod.splits)
qed

lemma tick_ctrl:
  "tick st ob = Inr (st', ctrl) \<Longrightarrow>
   ctrl = control_ego (sim_time st') (decision st') (collision st)"
  by (auto simp add: tick_eq)

lemma main_loop_collision:
  "main_loop st obs = Inr (st', ctrls) \<Longrightarrow>
   collision st' = (collision st \<or> (\<exists>ob \<in> set obs. flt (valof (distance ob)) (Fin (5 / 2))))"
proof (induction obs arbitrary: st st' ctrls)
  case Nil
  then show ?case by simp
next
  case (Cons ob obs)
  obtain st1 c1 where t: "tick st ob = Inr (st1, c1)" by (simp add: tick_eq)
  obtain st2 cs where m: "main_loop st1 obs = Inr (st2, cs)" using main_loop_total by blast
  from Cons.prems t m have e: "st' = st2" by simp
  from Cons.IH [OF m] tick_collision [OF t] e show ?case by auto
qed

text \<open>
  Claim C2, as stated: the flag is set on a tick with distance below 2.5, and while it
  is true the actuation is full brake for the rest of the run. It fails on the tick
  that sets the flag: \<^verbatim>\<open>main\<close> calls \<open>control_ego\<close> with the flag as it was before
  the tick and updates the flag afterwards. Here the tick with distance 2.0 sets the
  flag and applies throttle 0.5 and brake 0; the next tick applies full brake.
\<close>

theorem collision_latch_counterexample:
  "main_loop \<lparr>sim_time = Fin 3, collision = False, decision = safe_default, link = None\<rparr>
     [\<lparr>distance = double_2_0, ego_speed = double_0_0, cyclist_speed = double_0_0\<rparr>,
      \<lparr>distance = double_10_0, ego_speed = double_0_0, cyclist_speed = double_0_0\<rparr>]
   = Inr (\<lparr>sim_time = Fin (31 / 10), collision = True, decision = safe_default, link = None\<rparr>,
          [\<lparr>throttle = Fin (1 / 2), steer = Fin 0, brake = Fin 0\<rparr>,
           \<lparr>throttle = Fin 0, steer = Fin 0, brake = Fin 1\<rparr>])
   \<and> flt (valof double_2_0) (Fin (5 / 2))"
  by (simp add: tick_eq exchange_None control_ego_drive control_ego_override safe_default_def
      fgt_def py_max_def fsub_def valof_double_2_0 valof_double_10_0)

text \<open>
  Claim C2, amended. The collision flag starts false. After a tick it is true exactly
  when it was true before or the distance of the tick is below 2.5; the control of the
  tick is derived with the flag as it was before the tick. So a tick that starts with
  the flag true leaves it true and applies full brake, whatever the distance and the
  decision are; at the end of a run the flag is true exactly when it was true at the
  start or some tick had a distance below 2.5; and in a run from the initial state
  every tick after one with a distance below 2.5 applies full brake. A run never
  aborts.
\<close>

theorem collision_latch:
  "\<not> collision (init_state l)
   \<and> (\<exists>st1 cs. main_loop st obs = Inr (st1, cs))
   \<and> (tick st ob = Inr (st', ctrl) \<longrightarrow>
        collision st' = (collision st \<or> flt (valof (distance ob)) (Fin (5 / 2)))
        \<and> ctrl = control_ego (sim_time st') (decision st') (collision st))
   \<and> (tick st ob = Inr (st', ctrl) \<and> collision st \<longrightarrow> collision st' \<and> ctrl = full_brake)
   \<and> (main_loop st obs = Inr (stf, csf) \<longrightarrow>
        collision stf = (collision st \<or> (\<exists>x \<in> set obs. flt (valof (distance x)) (Fin (5 / 2))))
        \<and> length csf = length obs)
   \<and> (main_loop (init_state l) (before @ ob # after) = Inr (st'', ctrls)
        \<and> flt (valof (distance ob)) (Fin (5 / 2))
      \<longrightarrow> collision st'' \<and> length ctrls = length before + 1 + length after
          \<and> (\<forall>c \<in> set (drop (length before + 1) ctrls). c = full_brake))"
proof (intro conjI impI)
  show "\<not> collision (init_state l)" by (simp add: init_state_def)
  show "\<exists>st1 cs. main_loop st obs = Inr (st1, cs)" by (rule main_loop_total)
next
  assume a: "tick st ob = Inr (st', ctrl)"
  show "collision st' = (collision st \<or> flt (valof (distance ob)) (Fin (5 / 2)))"
    using a by (rule tick_collision)
  show "ctrl = control_ego (sim_time st') (decision st') (collision st)"
    using a by (rule tick_ctrl)
next
  assume a: "tick st ob = Inr (st', ctrl) \<and> collision st"
  then show "collision st'" "ctrl = full_brake" using tick_latched [of st ob st' ctrl] by simp_all
next
  assume a: "main_loop st obs = Inr (stf, csf)"
  show "collision stf = (collision st \<or> (\<exists>x \<in> set obs. flt (valof (distance x)) (Fin (5 / 2))))"
    using a by (rule main_loop_collision)
  show "length csf = length obs" using a by (rule main_loop_length)
next
  assume a: "main_loop (init_state l) (before @ ob # after) = Inr (st'', ctrls)
        \<and> flt (valof (distance ob)) (Fin (5 / 2))"
  obtain s1 cs1 where m1: "main_loop (init_state l) before = Inr (s1, cs1)"
    using main_loop_total by blast
  obtain s2 c2 where t: "tick s1 ob = Inr (s2, c2)" by (simp add: tick_eq)
  obtain s3 csf where m3: "main_loop s2 after = Inr (s3, csf)" using main_loop_total by blast
  from a m1 t m3 have eq: "st'' = s3" "ctrls = cs1 @ c2 # csf"
    by (simp_all add: main_loop_append)
  from a t have c2: "collision s2" using tick_collision [of s1 ob s2 c2] by simp
  from main_loop_latched [OF c2 m3] have l3: "collision s3" "length csf = length after"
    "\<forall>c \<in> set csf. c = full_brake" by simp_all
  from main_loop_length [OF m1] have l1: "length cs1 = length before" .
  show "collision st''" using eq l3 by simp
  show "length ctrls = length before + 1 + length after" using eq l1 l3 by simp
  show "\<forall>c \<in> set (drop (length before + 1) ctrls). c = full_brake"
    using eq l1 l3 by simp
qed

theorem collision_latch_witness:
  "flt (valof double_2_0) (Fin (5 / 2)) \<and> \<not> flt (valof double_10_0) (Fin (5 / 2))
   \<and> tick \<lparr>sim_time = Fin 3, collision = False, decision = safe_default, link = None\<rparr>
          \<lparr>distance = double_10_0, ego_speed = double_0_0, cyclist_speed = double_0_0\<rparr>
       = Inr (\<lparr>sim_time = Fin (61 / 20), collision = False, decision = safe_default, link = None\<rparr>,
              \<lparr>throttle = Fin (1 / 2), steer = Fin 0, brake = Fin 0\<rparr>)
   \<and> tick \<lparr>sim_time = Fin (61 / 20), collision = True, decision = safe_default, link = None\<rparr>
          \<lparr>distance = double_10_0, ego_speed = double_0_0, cyclist_speed = double_0_0\<rparr>
       = Inr (\<lparr>sim_time = Fin (31 / 10), collision = True, decision = safe_default, link = None\<rparr>,
              full_brake)
   \<and> main_loop \<lparr>sim_time = Fin 3, collision = False, decision = safe_default, link = None\<rparr>
        [\<lparr>distance = double_10_0, ego_speed = double_0_0, cyclist_speed = double_0_0\<rparr>]
       = Inr (\<lparr>sim_time = Fin (61 / 20), collision = False, decision = safe_default, link = None\<rparr>,
              [\<lparr>throttle = Fin (1 / 2), steer = Fin 0, brake = Fin 0\<rparr>])
   \<and> main_loop (init_state None)
        ([\<lparr>distance = double_10_0, ego_speed = double_0_0, cyclist_speed = double_0_0\<rparr>]
         @ \<lparr>distance = double_2_0, ego_speed = double_0_0, cyclist_speed = double_0_0\<rparr>
         # [\<lparr>distance = double_10_0, ego_speed = double_0_0, cyclist_speed = double_0_0\<rparr>])
       = Inr (\<lparr>sim_time = Fin (3 / 20), collision = True, decision = safe_default, link = None\<rparr>,
              [full_brake, full_brake, full_brake])
   \<and> collision \<lparr>sim_time = Fin (3 / 20), collision = True, decision = safe_default, link = None\<rparr>
   \<and> \<not> collision \<lparr>sim_time = Fin (61 / 20), collision = False, decision = safe_default, link = None\<rparr>"
proof -
  have f: "flt (valof double_2_0) (Fin (5 / 2))" "\<not> flt (valof double_10_0) (Fin (5 / 2))"
    by (simp_all add: valof_double_2_0 valof_double_10_0)
  have t1: "tick \<lparr>sim_time = Fin 3, collision = False, decision = safe_default, link = None\<rparr>
          \<lparr>distance = double_10_0, ego_speed = double_0_0, cyclist_speed = double_0_0\<rparr>
       = Inr (\<lparr>sim_time = Fin (61 / 20), collision = False, decision = safe_default, link = None\<rparr>,
              \<lparr>throttle = Fin (1 / 2), steer = Fin 0, brake = Fin 0\<rparr>)"
    using f by (simp add: tick_eq exchange_None control_ego_drive safe_default_def fgt_def
        py_max_def fsub_def)
  have t2: "tick \<lparr>sim_time = Fin (61 / 20), collision = True, decision = safe_default, link = None\<rparr>
          \<lparr>distance = double_10_0, ego_speed = double_0_0, cyclist_speed = double_0_0\<rparr>
       = Inr (\<lparr>sim_time = Fin (31 / 10), collision = True, decision = safe_default, link = None\<rparr>,
              full_brake)"
    using f by (simp add: tick_eq exchange_None control_ego_override full_brake_def)
  have m0: "main_loop \<lparr>sim_time = Fin 3, collision = False, decision = safe_default, link = None\<rparr>
        [\<lparr>distance = double_10_0, ego_speed = double_0_0, cyclist_speed = double_0_0\<rparr>]
       = Inr (\<lparr>sim_time = Fin (61 / 20), collision = False, decision = safe_default, link = None\<rparr>,
              [\<lparr>throttle = Fin (1 / 2), steer = Fin 0, brake = Fin 0\<rparr>])"
    using t1 by simp
  have m: "main_loop (init_state None)
        ([\<lparr>distance = double_10_0, ego_speed = double_0_0, cyclist_speed = double_0_0\<rparr>]
         @ \<lparr>distance = double_2_0, ego_speed = double_0_0, cyclist_speed = double_0_0\<rparr>
         # [\<lparr>distance = double_10_0, ego_speed = double_0_0, cyclist_speed = double_0_0\<rparr>])
       = Inr (\<lparr>sim_time = Fin (3 / 20), collision = True, decision = safe_default, link = None\<rparr>,
              [full_brake, full_brake, full_brake])"
    using f by (simp add: init_state_def tick_eq exchange_None control_ego_hold control_ego_override
        full_brake_def fgt_def)
  show ?thesis
    using f t1 t2 m0 m
      collision_latch [where l = None
        and st = "\<lparr>sim_time = Fin 3, collision = False, decision = safe_default, link = None\<rparr>"
        and obs = "[\<lparr>distance = double_10_0, ego_speed = double_0_0, cyclist_speed = double_0_0\<rparr>]"
        and stf = "\<lparr>sim_time = Fin (61 / 20), collision = False, decision = safe_default, link = None\<rparr>"
        and csf = "[\<lparr>throttle = Fin (1 / 2), steer = Fin 0, brake = Fin 0\<rparr>]"
        and ob = "\<lparr>distance = double_2_0, ego_speed = double_0_0, cyclist_speed = double_0_0\<rparr>"
        and before = "[\<lparr>distance = double_10_0, ego_speed = double_0_0, cyclist_speed = double_0_0\<rparr>]"
        and after = "[\<lparr>distance = double_10_0, ego_speed = double_0_0, cyclist_speed = double_0_0\<rparr>]"
        and st'' = "\<lparr>sim_time = Fin (3 / 20), collision = True, decision = safe_default, link = None\<rparr>"
        and ctrls = "[full_brake, full_brake, full_brake]"]
      collision_latch [where l = None
        and st = "\<lparr>sim_time = Fin (61 / 20), collision = True, decision = safe_default, link = None\<rparr>"
        and ob = "\<lparr>distance = double_10_0, ego_speed = double_0_0, cyclist_speed = double_0_0\<rparr>"
        and st' = "\<lparr>sim_time = Fin (31 / 10), collision = True, decision = safe_default, link = None\<rparr>"
        and ctrl = full_brake]
    by simp
qed

end
